theory Spec2Isabelle
  imports Complex_Main "HOL-Library.List_Lexorder" "HOL-Library.Char_ord"
begin

section \<open>LifeOps backend: shallow embedding of \<open>src/backend/main.py\<close>\<close>

text \<open>
  Conventions of the embedding.
  \<^item> Python \<open>int\<close> is \<open>int\<close>. A Python \<open>float\<close> is the real number it stands for, of type
    \<open>real\<close>; in the analytics every operation on floats rounds its exact result to the
    nearest double (subsection Double-precision arithmetic). Clock readings and delays
    are compared and added as real numbers.
  \<^item> Python \<open>str\<close> is \<open>string\<close>; non-ASCII characters of the source's literals are
    written as their UTF-8 bytes, so \<open>len\<close> and slices count bytes where Python counts
    code points (the same on ASCII text).
  \<^item> A raised exception is a value \<open>Inl e\<close> of the sum type \<open>exc + 'a\<close>.
  \<^item> \<open>datetime.date\<close> is its proleptic Gregorian ordinal (\<open>date.toordinal()\<close>), an
    \<open>int\<close> between 1 and 3652059; comparison and \<open>timedelta\<close> arithmetic of dates are
    comparison and addition of ordinals, with Python's \<open>OverflowError\<close> outside the range.
\<close>

datatype exc =
    ValueError
  | IndexError
  | OverflowError
  | ZeroDivisionError
  | HTTPException int string
  | HTTPError int string
  | URLError string
  | OtherError string

subsection \<open>Dates: \<open>datetime.strptime(s, "%Y-%m-%d").date()\<close>, \<open>timedelta\<close>, \<open>isoformat\<close>\<close>

type_synonym pydate = int

definition date_min :: pydate where
  "date_min = 1"

definition date_max :: pydate where
  "date_max = 3652059"

definition is_digit :: "char \<Rightarrow> bool" where
  "is_digit c = (CHR ''0'' \<le> c \<and> c \<le> CHR ''9'')"

definition digit_val :: "char \<Rightarrow> int" where
  "digit_val c = int (of_char c) - 48"

definition is_leap :: "int \<Rightarrow> bool" where
  "is_leap y = (y mod 4 = 0 \<and> (y mod 100 \<noteq> 0 \<or> y mod 400 = 0))"

definition days_in_month :: "int \<Rightarrow> int \<Rightarrow> int" where
  "days_in_month y m =
     (if m = 2 then (if is_leap y then 29 else 28)
      else if m = 4 \<or> m = 6 \<or> m = 9 \<or> m = 11 then 30 else 31)"

definition days_before_year :: "int \<Rightarrow> int" where
  "days_before_year y = (y - 1) * 365 + (y - 1) div 4 - (y - 1) div 100 + (y - 1) div 400"

definition days_before_month :: "int \<Rightarrow> int \<Rightarrow> int" where
  "days_before_month y m = sum_list (map (days_in_month y) [1..m - 1])"

definition ymd2ord :: "int \<Rightarrow> int \<Rightarrow> int \<Rightarrow> pydate" where
  "ymd2ord y m d = days_before_year y + days_before_month y m + d"

text \<open>The constructor \<open>date(year, month, day)\<close>: \<open>ValueError\<close> (here \<open>None\<close>) unless
  \<open>1 \<le> year \<le> 9999\<close>, \<open>1 \<le> month \<le> 12\<close> and the day exists in that month.\<close>

definition mk_date :: "int \<Rightarrow> int \<Rightarrow> int \<Rightarrow> pydate option" where
  "mk_date y m d =
     (if 1 \<le> y \<and> y \<le> 9999 \<and> 1 \<le> m \<and> m \<le> 12 \<and> 1 \<le> d \<and> d \<le> days_in_month y m
      then Some (ymd2ord y m d) else None)"

text \<open>The directive \<open>%m\<close> is the regular expression \<open>1[0-2]|0[1-9]|[1-9]\<close>, here followed by
  the literal \<open>-\<close>; the result is the month and the rest of the input.\<close>

fun parse_month :: "string \<Rightarrow> (int \<times> string) option" where
  "parse_month (a # b # c # rest) =
     (if a = CHR ''1'' \<and> (b = CHR ''0'' \<or> b = CHR ''1'' \<or> b = CHR ''2'') \<and> c = CHR ''-''
        then Some (10 + digit_val b, rest)
      else if a = CHR ''0'' \<and> is_digit b \<and> b \<noteq> CHR ''0'' \<and> c = CHR ''-''
        then Some (digit_val b, rest)
      else if is_digit a \<and> a \<noteq> CHR ''0'' \<and> b = CHR ''-''
        then Some (digit_val a, c # rest)
      else None)"
| "parse_month [a, b] =
     (if is_digit a \<and> a \<noteq> CHR ''0'' \<and> b = CHR ''-'' then Some (digit_val a, []) else None)"
| "parse_month _ = None"

text \<open>The directive \<open>%d\<close> is \<open>3[0-1]|[1-2]\d|0[1-9]|[1-9]| [1-9]\<close>; it ends the format, so
  the whole rest of the input has to be one of the alternatives (otherwise
  \<open>unconverted data remains\<close>).\<close>

fun parse_day :: "string \<Rightarrow> int option" where
  "parse_day [a, b] =
     (if a = CHR ''3'' \<and> (b = CHR ''0'' \<or> b = CHR ''1'') then Some (30 + digit_val b)
      else if (a = CHR ''1'' \<or> a = CHR ''2'') \<and> is_digit b then Some (10 * digit_val a + digit_val b)
      else if a = CHR ''0'' \<and> is_digit b \<and> b \<noteq> CHR ''0'' then Some (digit_val b)
      else if a = CHR '' '' \<and> is_digit b \<and> b \<noteq> CHR ''0'' then Some (digit_val b)
      else None)"
| "parse_day [a] = (if is_digit a \<and> a \<noteq> CHR ''0'' then Some (digit_val a) else None)"
| "parse_day _ = None"

text \<open>\<open>_parse_yyyy_mm_dd\<close>: \<open>None\<close> stands for the \<open>ValueError\<close> of \<open>strptime\<close>.\<close>

fun parse_yyyy_mm_dd :: "string \<Rightarrow> pydate option" where
  "parse_yyyy_mm_dd (y1 # y2 # y3 # y4 # dash # rest) =
     (if is_digit y1 \<and> is_digit y2 \<and> is_digit y3 \<and> is_digit y4 \<and> dash = CHR ''-'' then
        (case parse_month rest of
           None \<Rightarrow> None
         | Some (m, rest') \<Rightarrow>
            (case parse_day rest' of
               None \<Rightarrow> None
             | Some d \<Rightarrow>
                 mk_date (1000 * digit_val y1 + 100 * digit_val y2 + 10 * digit_val y3 + digit_val y4)
                   m d))
      else None)"
| "parse_yyyy_mm_dd _ = None"

text \<open>\<open>d + timedelta(days=k)\<close>: \<open>timedelta\<close> accepts at most 999999999 days, and the sum has
  to be a date.\<close>

definition date_add :: "pydate \<Rightarrow> int \<Rightarrow> exc + pydate" where
  "date_add d k =
     (if \<bar>k\<bar> \<le> 999999999 \<and> date_min \<le> d + k \<and> d + k \<le> date_max then Inr (d + k)
      else Inl OverflowError)"

text \<open>\<open>date.fromordinal\<close>'s year, month and day (\<open>_ord2ymd\<close> of the standard library).\<close>

definition ord2ymd :: "pydate \<Rightarrow> int \<times> int \<times> int" where
  "ord2ymd ordinal =
     (let n0 = ordinal - 1;
          n400 = n0 div 146097; r400 = n0 mod 146097;
          n100 = r400 div 36524; r100 = r400 mod 36524;
          n4 = r100 div 1461; r4 = r100 mod 1461;
          n1 = r4 div 365; r1 = r4 mod 365;
          year = n400 * 400 + 1 + n100 * 100 + n4 * 4 + n1
      in if n1 = 4 \<or> n100 = 4 then (year - 1, 12, 31)
         else
           (let month = (r1 + 50) div 32;
                preceding = days_before_month year month
            in if preceding > r1
               then (year, month - 1, r1 - days_before_month year (month - 1) + 1)
               else (year, month, r1 - preceding + 1)))"

text \<open>\<open>str(k)\<close> of a Python \<open>int\<close>, in decimal.\<close>

fun show_nat :: "nat \<Rightarrow> string" where
  "show_nat k =
     (if k < 10 then [char_of (48 + k)]
      else show_nat (k div 10) @ [char_of (48 + k mod 10)])"

declare show_nat.simps [simp del]

definition show_int :: "int \<Rightarrow> string" where
  "show_int i = (if i < 0 then CHR ''-'' # show_nat (nat (- i)) else show_nat (nat i))"

definition zero_pad :: "nat \<Rightarrow> string \<Rightarrow> string" where
  "zero_pad w s = replicate (w - length s) (CHR ''0'') @ s"

definition isoformat :: "pydate \<Rightarrow> string" where
  "isoformat d =
     (case ord2ymd d of (y, m, dd) \<Rightarrow>
        zero_pad 4 (show_int y) @ ''-'' @ zero_pad 2 (show_int m) @ ''-'' @ zero_pad 2 (show_int dd))"

subsection \<open>Data model\<close>

text \<open>A row of the table \<open>logs\<close> as \<open>_row_to_log\<close> returns it (the key \<open>notes\<close> is the field
  \<open>notes_text\<close>).\<close>

record log =
  date :: string
  sleep :: real
  sleepQual :: int
  trained :: bool
  trainMin :: int
  trainType :: string
  foodScore :: int
  water :: bool
  meals :: bool
  mood :: int
  anxiety :: int
  notes_text :: string

text \<open>The goals as \<open>_merge_goals\<close> returns them: the four keys are always present.\<close>

record goals =
  sleepMin :: real
  workoutsPerWeek :: int
  foodTarget :: int
  anxietyMax :: int

definition DEFAULT_GOALS :: goals where
  "DEFAULT_GOALS = \<lparr>sleepMin = 7, workoutsPerWeek = 3, foodTarget = 4, anxietyMax = 6\<rparr>"

record trend =
  anxiety_delta :: real
  sleep_delta :: real
  mood_delta :: real

text \<open>The dictionary \<open>_summarize_window\<close> returns; the key \<open>n\<close> is the field \<open>stats_n\<close>, and
  the empty dictionary of \<open>trend\<close> is \<open>None\<close>.\<close>

record stats =
  stats_n :: nat
  window_start :: "string option"
  window_end :: "string option"
  missing_days_in_range :: nat
  anxiety_limit :: int
  avg_sleep :: real
  avg_mood :: real
  avg_anxiety :: real
  avg_food :: real
  workouts :: nat
  high_anxiety_days :: nat
  peak_anxiety :: int
  peak_date :: "string option"
  train_effect :: "real option"
  corr_sleep_vs_anxiety :: "real option"
  trend :: "trend option"

record window_selection =
  window :: "log list"
  future_count :: nat
  used_start_date :: string
  used_end_date :: string
  used_past_only :: bool

subsection \<open>Double-precision arithmetic\<close>

text \<open>The floats of the program are finite doubles (IEEE 754 binary64). An operation returns
  the double nearest to its exact result, a tie going to the even significand: 53
  significant bits, and multiples of \<open>2 ^ -1074\<close> below \<open>2 ^ -1022\<close>. Results beyond the
  largest double (\<open>inf\<close>, and the \<open>OverflowError\<close> of an int quotient or of a power) and
  \<open>nan\<close> are outside the model.\<close>

definition round_half_even :: "real \<Rightarrow> int" where
  "round_half_even y =
     (let f = \<lfloor>y\<rfloor>; r = y - of_int f
      in if r < 1 / 2 then f else if 1 / 2 < r then f + 1 else if even f then f else f + 1)"

definition pow2 :: "int \<Rightarrow> real" where
  "pow2 e = (if 0 \<le> e then 2 ^ nat e else 1 / 2 ^ nat (- e))"

text \<open>The significand and exponent of a positive real: \<open>y * 2 ^ e\<close> is kept, \<open>y\<close> is brought
  below \<open>2 ^ 53\<close> and then up to \<open>2 ^ 52\<close>, unless the exponent reaches that of the
  subnormal doubles first.\<close>

function scale_down :: "real \<Rightarrow> int \<Rightarrow> real \<times> int" where
  "scale_down y e = (if 2 ^ 53 \<le> y then scale_down (y / 2) (e + 1) else (y, e))"
  by pat_completeness auto
termination
  by (relation "measure (\<lambda>(y, e). nat \<lceil>y\<rceil>)") (simp, simp, linarith)

function scale_up :: "real \<Rightarrow> int \<Rightarrow> real \<times> int" where
  "scale_up y e = (if y < 2 ^ 52 \<and> - 1074 < e then scale_up (2 * y) (e - 1) else (y, e))"
  by pat_completeness auto
termination
  by (relation "measure (\<lambda>(y, e). nat (e + 1074))") auto

declare scale_down.simps [simp del] scale_up.simps [simp del]

text \<open>\<open>fl x\<close> is the double nearest to \<open>x\<close>.\<close>

definition fl :: "real \<Rightarrow> real" where
  "fl x =
     (if x = 0 then 0
      else (case scale_down \<bar>x\<bar> 0 of (y1, e1) \<Rightarrow>
             (case scale_up y1 e1 of (y2, e2) \<Rightarrow>
                sgn x * of_int (round_half_even y2) * pow2 e2)))"

text \<open>\<open>x + y\<close>, \<open>x - y\<close>, \<open>x * y\<close> and \<open>x / y\<close> of two floats; every division of the analytics has
  a non-zero divisor (a length checked before, or a product of two non-zero square roots,
  which is too large to underflow).\<close>

definition fadd :: "real \<Rightarrow> real \<Rightarrow> real" where
  "fadd x y = fl (x + y)"

definition fsub :: "real \<Rightarrow> real \<Rightarrow> real" where
  "fsub x y = fl (x - y)"

definition fmul :: "real \<Rightarrow> real \<Rightarrow> real" where
  "fmul x y = fl (x * y)"

definition fdiv :: "real \<Rightarrow> real \<Rightarrow> real" where
  "fdiv x y = fl (x / y)"

text \<open>\<open>float(a)\<close> of an int, also the conversion of an int operand next to a float; \<open>a / b\<close> of
  two ints, which CPython rounds once, from the exact quotient.\<close>

definition float_of_int :: "int \<Rightarrow> real" where
  "float_of_int a = fl (of_int a)"

definition int_true_div :: "int \<Rightarrow> int \<Rightarrow> real" where
  "int_true_div a b = fl (of_int a / of_int b)"

text \<open>The builtin \<open>sum\<close> over floats, from the start value 0: one rounded addition per item,
  left to right (CPython up to 3.11; later versions carry a compensation term).\<close>

definition fsum :: "real list \<Rightarrow> real" where
  "fsum xs = foldl fadd 0 xs"

text \<open>\<open>round(x, nd)\<close> of a float: CPython rounds the exact value of the double \<open>x\<close> to \<open>nd\<close>
  decimals, a tie to the even digit, and returns the double nearest to that decimal.\<close>

definition py_round :: "nat \<Rightarrow> real \<Rightarrow> real" where
  "py_round nd x = fl (of_int (round_half_even (x * 10 ^ nd)) / 10 ^ nd)"

text \<open>A sample of the C library's \<open>pow\<close> for the two exponents the program uses: the double
  nearest to the exact power.\<close>

definition rounded_pow :: "real \<Rightarrow> real \<Rightarrow> real" where
  "rounded_pow x y = (if y = 2 then fl (x * x) else fl (sqrt x))"

subsection \<open>Analytics\<close>

text \<open>The powers \<open>x ** 2\<close> and \<open>x ** 0.5\<close> of floats. CPython answers itself for the bases 0
  and 1 and passes the absolute value of a negative base with the even exponent 2; every
  other power is a call of the C library's \<open>pow\<close>, whose rounding the language does not
  fix (it is not always the nearest double). \<open>pw\<close> stands for that function, a parameter
  of everything that computes the correlation. The base of \<open>** 0.5\<close> is a sum of squares;
  a negative one, for which Python would go on with a complex number, does not arise
  from a \<open>pow\<close> of the C library.\<close>

definition pow_two :: "(real \<Rightarrow> real \<Rightarrow> real) \<Rightarrow> real \<Rightarrow> real" where
  "pow_two pw x = (if x = 0 then 0 else if \<bar>x\<bar> = 1 then 1 else pw \<bar>x\<bar> 2)"

definition pow_half :: "(real \<Rightarrow> real \<Rightarrow> real) \<Rightarrow> real \<Rightarrow> real" where
  "pow_half pw x = (if x = 0 then 0 else if x = 1 then 1 else pw x (1 / 2))"

text \<open>\<open>_pearson_corr\<close> (lines 245 to 256).\<close>

definition pearson_corr ::
  "(real \<Rightarrow> real \<Rightarrow> real) \<Rightarrow> real list \<Rightarrow> real list \<Rightarrow> real option" where
  "pearson_corr pw xs ys =
     (if length xs \<noteq> length ys \<or> length xs < 4 then None
      else
        (let n = float_of_int (int (length xs));
             mx = fdiv (fsum xs) n;
             my = fdiv (fsum ys) n;
             num = fsum (map (\<lambda>(x, y). fmul (fsub x mx) (fsub y my)) (zip xs ys));
             denx = pow_half pw (fsum (map (\<lambda>x. pow_two pw (fsub x mx)) xs));
             deny = pow_half pw (fsum (map (\<lambda>y. pow_two pw (fsub y my)) ys))
         in if denx = 0 \<or> deny = 0 then None else Some (fdiv num (fmul denx deny))))"

text \<open>The same formula over the real numbers, with exact sums, powers and square root: the
  correlation coefficient that \<open>_pearson_corr\<close> approximates.\<close>

definition pearson_exact :: "real list \<Rightarrow> real list \<Rightarrow> real option" where
  "pearson_exact xs ys =
     (if length xs \<noteq> length ys \<or> length xs < 4 then None
      else
        (let n = real (length xs);
             mx = sum_list xs / n;
             my = sum_list ys / n;
             num = sum_list (map (\<lambda>(x, y). (x - mx) * (y - my)) (zip xs ys));
             denx = sqrt (sum_list (map (\<lambda>x. (x - mx)\<^sup>2) xs));
             deny = sqrt (sum_list (map (\<lambda>y. (y - my)\<^sup>2) ys))
         in if denx = 0 \<or> deny = 0 then None else Some (num / (denx * deny))))"

text \<open>\<open>max(anx)\<close> and \<open>anx.index(v)\<close> (the first position of \<open>v\<close>).\<close>

fun max_list :: "int list \<Rightarrow> int" where
  "max_list [] = 0"
| "max_list (x # xs) = fold max xs x"

fun index_of :: "int \<Rightarrow> int list \<Rightarrow> nat" where
  "index_of v [] = 0"
| "index_of v (x # xs) = (if x = v then 0 else Suc (index_of v xs))"

text \<open>Lines 276 to 280: the training effect from the anxiety and training columns.\<close>

definition train_effect_of :: "int list \<Rightarrow> bool list \<Rightarrow> real option" where
  "train_effect_of anx trn =
     (let anx_train = map fst (filter snd (zip anx trn));
          anx_not = map fst (filter (\<lambda>p. \<not> snd p) (zip anx trn))
      in if anx_train \<noteq> [] \<and> anx_not \<noteq> []
         then Some (py_round 3
                (fsub (int_true_div (sum_list anx_not) (int (length anx_not)))
                      (int_true_div (sum_list anx_train) (int (length anx_train)))))
         else None)"

text \<open>The loop counting the calendar days of the range that have no log. The step
  \<open>cur += timedelta(days=1)\<close> is taken after the last day too, and raises at \<open>date.max\<close>.\<close>

function missing_loop :: "pydate list \<Rightarrow> pydate \<Rightarrow> pydate \<Rightarrow> nat \<Rightarrow> exc + nat" where
  "missing_loop have cur end_d missing =
     (if cur \<le> end_d then
        (case date_add cur 1 of
           Inl e \<Rightarrow> Inl e
         | Inr cur' \<Rightarrow>
             missing_loop have cur' end_d (if cur \<in> set have then missing else missing + 1))
      else Inr missing)"
  by pat_completeness auto
termination
  by (relation "measure (\<lambda>(have, cur, end_d, missing). nat (end_d - cur + 1))")
     (auto simp: date_add_def split: if_splits)

text \<open>\<open>[_parse_yyyy_mm_dd(l["date"]) for l in logs]\<close>: the first date that does not parse
  raises.\<close>

fun parse_all :: "log list \<Rightarrow> exc + pydate list" where
  "parse_all [] = Inr []"
| "parse_all (l # ls) =
     (case parse_yyyy_mm_dd (date l) of
        None \<Rightarrow> Inl ValueError
      | Some d \<Rightarrow> (case parse_all ls of Inl e \<Rightarrow> Inl e | Inr ds \<Rightarrow> Inr (d # ds)))"

text \<open>The local function \<open>mean\<close> of the trend, on the floats of one column.\<close>

definition mean3 :: "real list \<Rightarrow> real" where
  "mean3 arr = fdiv (fsum arr) (float_of_int (int (length arr)))"

definition trend_of :: "log list \<Rightarrow> trend option" where
  "trend_of logs =
     (let n = length logs in
      if n \<ge> 6 then
        (let last3 = drop (n - 3) logs;
             prev3 = take 3 (drop (n - 6) logs)
         in Some \<lparr>anxiety_delta =
                    py_round 2 (fsub (mean3 (map (\<lambda>l. float_of_int (anxiety l)) last3))
                                     (mean3 (map (\<lambda>l. float_of_int (anxiety l)) prev3))),
                  sleep_delta =
                    py_round 2 (fsub (mean3 (map sleep last3)) (mean3 (map sleep prev3))),
                  mood_delta =
                    py_round 2 (fsub (mean3 (map (\<lambda>l. float_of_int (mood l)) last3))
                                     (mean3 (map (\<lambda>l. float_of_int (mood l)) prev3)))\<rparr>)
      else None)"

definition summarize_window ::
  "(real \<Rightarrow> real \<Rightarrow> real) \<Rightarrow> goals \<Rightarrow> log list \<Rightarrow> exc + stats" where
  "summarize_window pw g logs =
     (let n = length logs;
          anx_limit = anxietyMax g;
          sleep_l = map sleep logs;
          mood_l = map mood logs;
          anx = map anxiety logs;
          food = map foodScore logs;
          trained_l = map trained logs;
          workouts_n = length (filter id trained_l);
          high_anx_days = length (filter (\<lambda>a. a > anx_limit) anx);
          peak_anx = max_list anx;
          peak_idx = index_of peak_anx anx;
          peak_d = (if logs = [] then None else Some (date (logs ! peak_idx)));
          t_effect = train_effect_of anx trained_l;
          corr = map_option (py_round 3) (pearson_corr pw sleep_l (map float_of_int anx))
      in case parse_all logs of
           Inl e \<Rightarrow> Inl e
         | Inr dts \<Rightarrow>
            (case (if dts = [] then Inr 0
                   else missing_loop dts (Min (set dts)) (Max (set dts)) 0) of
               Inl e \<Rightarrow> Inl e
             | Inr missing \<Rightarrow>
                 if n = 0 then Inl ZeroDivisionError
                 else Inr
                   \<lparr>stats_n = n,
                    window_start = (if dts = [] then None else Some (isoformat (Min (set dts)))),
                    window_end = (if dts = [] then None else Some (isoformat (Max (set dts)))),
                    missing_days_in_range = missing,
                    anxiety_limit = anx_limit,
                    avg_sleep = py_round 2 (fdiv (fsum sleep_l) (float_of_int (int n))),
                    avg_mood = py_round 2 (int_true_div (sum_list mood_l) (int n)),
                    avg_anxiety = py_round 2 (int_true_div (sum_list anx) (int n)),
                    avg_food = py_round 2 (int_true_div (sum_list food) (int n)),
                    workouts = workouts_n,
                    high_anxiety_days = high_anx_days,
                    peak_anxiety = peak_anx,
                    peak_date = peak_d,
                    train_effect = t_effect,
                    corr_sleep_vs_anxiety = corr,
                    trend = trend_of logs\<rparr>))"

text \<open>\<open>_select_window_from_logs\<close>, with the current date \<open>_today_safe()\<close> as the argument
  \<open>today\<close>. A date that does not parse is skipped in both loops; the date of the last
  entry of the sorted base is parsed outside any \<open>try\<close>.\<close>

definition is_past_or_today :: "pydate \<Rightarrow> log \<Rightarrow> bool" where
  "is_past_or_today today l =
     (case parse_yyyy_mm_dd (date l) of None \<Rightarrow> False | Some d \<Rightarrow> d \<le> today)"

definition is_future :: "pydate \<Rightarrow> log \<Rightarrow> bool" where
  "is_future today l =
     (case parse_yyyy_mm_dd (date l) of None \<Rightarrow> False | Some d \<Rightarrow> today < d)"

definition in_range :: "pydate \<Rightarrow> pydate \<Rightarrow> log \<Rightarrow> bool" where
  "in_range start_date end_date l =
     (case parse_yyyy_mm_dd (date l) of
        None \<Rightarrow> False
      | Some d \<Rightarrow> start_date \<le> d \<and> d \<le> end_date)"

definition window_base :: "pydate \<Rightarrow> log list \<Rightarrow> log list" where
  "window_base today logs_desc =
     (let past_or_today = filter (is_past_or_today today) logs_desc
      in if length past_or_today \<ge> 3 then past_or_today else logs_desc)"

definition select_window_from_logs :: "pydate \<Rightarrow> log list \<Rightarrow> int \<Rightarrow> exc + window_selection" where
  "select_window_from_logs today logs_desc days =
     (let past_or_today = filter (is_past_or_today today) logs_desc;
          future = filter (is_future today) logs_desc;
          base_sorted = sort_key date (window_base today logs_desc)
      in if base_sorted = [] then Inl IndexError
         else
           (case parse_yyyy_mm_dd (date (last base_sorted)) of
              None \<Rightarrow> Inl ValueError
            | Some end_date \<Rightarrow>
               (case date_add end_date (- (days - 1)) of
                  Inl e \<Rightarrow> Inl e
                | Inr start_date \<Rightarrow>
                    Inr \<lparr>window = filter (in_range start_date end_date) base_sorted,
                         future_count = length future,
                         used_start_date = isoformat start_date,
                         used_end_date = isoformat end_date,
                         used_past_only = (length past_or_today \<ge> 3)\<rparr>)))"

subsection \<open>Example data\<close>

text \<open>The mean anxiety of a list of logs, \<open>sum(anx) / len(anx)\<close>, as the program computes it,
  and the same mean as a real number, without rounding.\<close>

definition mean_anxiety :: "log list \<Rightarrow> real" where
  "mean_anxiety ls = int_true_div (sum_list (map anxiety ls)) (int (length ls))"

definition exact_mean_anxiety :: "log list \<Rightarrow> real" where
  "exact_mean_anxiety ls = real_of_int (sum_list (map anxiety ls)) / real (length ls)"

definition mk_log :: "string \<Rightarrow> real \<Rightarrow> bool \<Rightarrow> int \<Rightarrow> log" where
  "mk_log d s t a =
     \<lparr>date = d, sleep = s, sleepQual = 3, trained = t, trainMin = (if t then 30 else 0),
      trainType = [], foodScore = 3, water = True, meals = True, mood = 5, anxiety = a,
      notes_text = []\<rparr>"

definition example_window :: "log list" where
  "example_window =
     [mk_log ''2024-01-01'' 7 True 4, mk_log ''2024-01-02'' 6 False 5,
      mk_log ''2024-01-03'' 5 False 8, mk_log ''2024-01-04'' 6 True 7,
      mk_log ''2024-01-05'' 8 True 3, mk_log ''2024-01-06'' 5 False 9,
      mk_log ''2024-01-07'' 7 False 6]"

text \<open>A window of 21 days: 16 days without training, with anxiety 1 on seven of them and 0 on
  the others, then 5 training days with anxiety 1, 1, 0, 0, 0. The means are 7/16 and 2/5.\<close>

definition tie_window :: "log list" where
  "tie_window =
     [mk_log ''2024-01-01'' 7 False 1,
      mk_log ''2024-01-02'' 7 False 1,
      mk_log ''2024-01-03'' 7 False 1,
      mk_log ''2024-01-04'' 7 False 1,
      mk_log ''2024-01-05'' 7 False 1,
      mk_log ''2024-01-06'' 7 False 1,
      mk_log ''2024-01-07'' 7 False 1,
      mk_log ''2024-01-08'' 7 False 0,
      mk_log ''2024-01-09'' 7 False 0,
      mk_log ''2024-01-10'' 7 False 0,
      mk_log ''2024-01-11'' 7 False 0,
      mk_log ''2024-01-12'' 7 False 0,
      mk_log ''2024-01-13'' 7 False 0,
      mk_log ''2024-01-14'' 7 False 0,
      mk_log ''2024-01-15'' 7 False 0,
      mk_log ''2024-01-16'' 7 False 0,
      mk_log ''2024-01-17'' 7 True 1,
      mk_log ''2024-01-18'' 7 True 1,
      mk_log ''2024-01-19'' 7 True 0,
      mk_log ''2024-01-20'' 7 True 0,
      mk_log ''2024-01-21'' 7 True 0]"


text \<open>Nine nights of 7.1 hours of sleep, and nine anxiety values that are not all equal.\<close>

definition constant_sleep :: "real list" where
  "constant_sleep = replicate 9 (fl (71 / 10))"

definition varied_anxiety :: "real list" where
  "varied_anxiety = map float_of_int [3, 1, 3, 1, 2, 2, 2, 2, 2]"


definition future_logs :: "log list" where
  "future_logs =
     [mk_log ''2024-01-09'' 7 False 4, mk_log ''2024-01-08'' 6 False 5,
      mk_log ''2024-01-07'' 8 True 3]"


definition mixed_logs :: "log list" where
  "mixed_logs =
     [mk_log ''2024-01-09'' 7 False 4, mk_log ''2024-01-07'' 6 False 5,
      mk_log ''2024-01-06'' 8 True 3, mk_log ''2024-01-05'' 6 True 7]"


text \<open>Three logs on the last three days of the calendar.\<close>

definition last_days_logs :: "log list" where
  "last_days_logs =
     [mk_log ''9999-12-29'' 7 False 4, mk_log ''9999-12-30'' 6 False 5,
      mk_log ''9999-12-31'' 8 True 3]"

subsection \<open>Strings\<close>

text \<open>\<open>s.startswith(p)\<close> and \<open>n in s\<close>.\<close>

definition starts_with :: "string \<Rightarrow> string \<Rightarrow> bool" where
  "starts_with s p = (take (length p) s = p)"

fun contains :: "string \<Rightarrow> string \<Rightarrow> bool" where
  "contains [] n = (n = [])"
| "contains (c # cs) n = (starts_with (c # cs) n \<or> contains cs n)"

text \<open>\<open>str.isspace\<close> on the ASCII range, \<open>s.strip()\<close> and \<open>s.lower()\<close>; bytes above 127
  (parts of non-ASCII characters) are left as they are.\<close>

definition is_space :: "char \<Rightarrow> bool" where
  "is_space c = (let k = (of_char c :: nat) in (9 \<le> k \<and> k \<le> 13) \<or> (28 \<le> k \<and> k \<le> 32))"

definition strip :: "string \<Rightarrow> string" where
  "strip s = rev (dropWhile is_space (rev (dropWhile is_space s)))"

definition lower_char :: "char \<Rightarrow> char" where
  "lower_char c =
     (let k = (of_char c :: nat) in if 65 \<le> k \<and> k \<le> 90 then char_of (k + 32) else c)"

definition lower :: "string \<Rightarrow> string" where
  "lower s = map lower_char s"

text \<open>\<open>"\n".join(lines)\<close>.\<close>

fun join_lines :: "string list \<Rightarrow> string" where
  "join_lines [] = []"
| "join_lines [l] = l"
| "join_lines (l # ls) = l @ [CHR 0x0A] @ join_lines ls"

subsection \<open>The log store and \<open>POST /logs\<close>\<close>

text \<open>The body of the request, as Pydantic's \<open>LogIn\<close> delivers it (a field \<open>x\<close> of the
  source is \<open>p_x\<close>).\<close>

record LogIn =
  p_date :: string
  p_sleep :: real
  p_sleepQual :: int
  p_trained :: bool
  p_trainMin :: int
  p_trainType :: "string option"
  p_foodScore :: int
  p_water :: bool
  p_meals :: bool
  p_mood :: int
  p_anxiety :: int
  p_notes :: string

text \<open>The database: the rows of the table \<open>logs\<close> (primary key \<open>date\<close>), and the row
  \<open>id = 1\<close> of the table \<open>state\<close>, present or not, held as the goals that
  \<open>_merge_goals(json.loads(goals_json))\<close> yields.\<close>

record store =
  logs_table :: "log list"
  state_row :: "goals option"

text \<open>\<open>INSERT ... ON CONFLICT(date) DO UPDATE SET ...\<close>: every column of the row with that
  date is replaced, or the row is added.\<close>

fun upsert_row :: "log \<Rightarrow> log list \<Rightarrow> log list" where
  "upsert_row r [] = [r]"
| "upsert_row r (x # xs) = (if date x = date r then r # xs else x # upsert_row r xs)"

definition lookup_row :: "string \<Rightarrow> log list \<Rightarrow> log option" where
  "lookup_row d rows = find (\<lambda>r. date r = d) rows"

definition date_shape_bad :: "string \<Rightarrow> bool" where
  "date_shape_bad d = (length d \<noteq> 10 \<or> d ! 4 \<noteq> CHR ''-'' \<or> d ! 7 \<noteq> CHR ''-'')"

definition msg_date_format :: string where
  "msg_date_format = ''date deve estar no formato YYYY-MM-DD.''"

definition msg_sleep_range :: string where
  "msg_sleep_range = ''sleep deve estar entre 0 e 24.''"

definition msg_sleepQual_range :: string where
  "msg_sleepQual_range = ''sleepQual deve estar entre 1 e 5.''"

definition msg_foodScore_range :: string where
  "msg_foodScore_range = ''foodScore deve estar entre 1 e 5.''"

definition msg_mood_range :: string where
  "msg_mood_range = ''mood deve estar entre 0 e 10.''"

definition msg_anxiety_range :: string where
  "msg_anxiety_range = ''anxiety deve estar entre 0 e 10.''"

definition msg_trainMin_range :: string where
  "msg_trainMin_range = ''trainMin fora do intervalo esperado (0'' @ [CHR 0xE2, CHR 0x80, CHR 0x93] @ ''600).''"


definition row_of_payload :: "LogIn \<Rightarrow> log" where
  "row_of_payload p =
     \<lparr>date = p_date p, sleep = p_sleep p, sleepQual = p_sleepQual p, trained = p_trained p,
      trainMin = p_trainMin p,
      trainType = (case p_trainType p of None \<Rightarrow> [] | Some t \<Rightarrow> t),
      foodScore = p_foodScore p, water = p_water p, meals = p_meals p, mood = p_mood p,
      anxiety = p_anxiety p, notes_text = p_notes p\<rparr>"

text \<open>\<open>upsert_log\<close>: the result of the request and the store after it.\<close>

definition upsert_log :: "LogIn \<Rightarrow> store \<Rightarrow> (exc + bool) \<times> store" where
  "upsert_log p s =
     (if date_shape_bad (p_date p) then (Inl (HTTPException 422 msg_date_format), s)
      else if p_sleep p < 0 \<or> p_sleep p > 24 then (Inl (HTTPException 422 msg_sleep_range), s)
      else if p_sleepQual p < 1 \<or> p_sleepQual p > 5
        then (Inl (HTTPException 422 msg_sleepQual_range), s)
      else if p_foodScore p < 1 \<or> p_foodScore p > 5
        then (Inl (HTTPException 422 msg_foodScore_range), s)
      else if p_mood p < 0 \<or> p_mood p > 10 then (Inl (HTTPException 422 msg_mood_range), s)
      else if p_anxiety p < 0 \<or> p_anxiety p > 10
        then (Inl (HTTPException 422 msg_anxiety_range), s)
      else if p_trainMin p < 0 \<or> p_trainMin p > 600
        then (Inl (HTTPException 422 msg_trainMin_range), s)
      else (Inr True, s\<lparr>logs_table := upsert_row (row_of_payload p) (logs_table s)\<rparr>))"

definition example_payload :: LogIn where
  "example_payload =
     \<lparr>p_date = ''2024-01-01'', p_sleep = 7, p_sleepQual = 4, p_trained = True, p_trainMin = 30,
      p_trainType = Some ''run'', p_foodScore = 4, p_water = True, p_meals = True, p_mood = 6,
      p_anxiety = 4, p_notes = []\<rparr>"

definition example_store :: store where
  "example_store = \<lparr>logs_table = example_window, state_row = Some DEFAULT_GOALS\<rparr>"

subsection \<open>Configuration and the world outside\<close>

text \<open>The module constants read from the environment at import time.\<close>

record config =
  GEMINI_API_KEY :: string
  GEMINI_MODEL :: string
  SNIX_CACHE_TTL_SEC :: int
  SNIX_RETRIES :: int
  SNIX_BACKOFF_BASE :: real
  SNIX_BACKOFF_CAP :: real
  SNIX_MAX_OUTPUT_TOKENS :: int

text \<open>What \<open>_gemini_generate_once\<close> returns: the text of the first candidate and the
  dictionary \<open>meta\<close> (\<open>usage\<close> is the provider's \<open>usageMetadata\<close>, kept as opaque text). The
  key \<open>raw_head\<close> is never read and is left out.\<close>

record gen_meta =
  block_reason :: "string option"
  finish_reason :: "string option"
  usage :: "string option"

record gen_out =
  g_text :: string
  g_meta :: gen_meta

text \<open>The user payload of \<open>_build_snix_prompt\<close> before serialisation (the task list, the
  constraints and the system text are constants and are left out), and the HTTP request.\<close>

record prompt =
  pr_focus :: string
  pr_goals :: goals
  pr_stats :: stats
  pr_logs :: "log list"

record request =
  rq_model :: string
  rq_prompt :: prompt
  rq_temperature :: real
  rq_max_output_tokens :: int
  rq_top_p :: real

datatype http_outcome = Returned gen_out | Raised exc

text \<open>
  The surroundings of one request as parameters:
  \<^item> \<open>urlopen k rq\<close> is what the \<open>k\<close>-th network call of the request does on \<open>rq\<close>: the
    \<open>with urlopen(...)\<close> block of \<open>_gemini_generate_once\<close> returns its dictionary, or raises
    \<open>HTTPError code body\<close> (\<open>body\<close> is what \<open>e.read()\<close> yields, empty if that fails),
    \<open>URLError\<close> or another exception;
  \<^item> \<open>uniform k\<close> is the \<open>k\<close>-th draw of \<open>random.uniform(0, 0.25)\<close>;
  \<^item> \<open>str_exc e\<close> is Python's \<open>str(e)\<close> and \<open>repr_float x\<close> is \<open>str(x)\<close> of a float;
  \<^item> \<open>time_get\<close> and \<open>time_set\<close> are the readings of \<open>time.time()\<close> in \<open>_cache_get\<close> and
    \<open>_cache_set\<close>, \<open>today_safe\<close> is \<open>_today_safe()\<close>.
\<close>

record world =
  urlopen :: "nat \<Rightarrow> request \<Rightarrow> http_outcome"
  uniform :: "nat \<Rightarrow> real"
  str_exc :: "exc \<Rightarrow> string"
  repr_float :: "real \<Rightarrow> string"
  time_get :: real
  time_set :: real
  today_safe :: pydate

text \<open>What a run of the gateway did: calls of \<open>_gemini_generate_once\<close>, network calls, and
  the \<open>time.sleep\<close> durations in order.\<close>

record trace =
  attempts :: nat
  net_calls :: nat
  sleeps :: "real list"

definition no_trace :: trace where
  "no_trace = \<lparr>attempts = 0, net_calls = 0, sleeps = []\<rparr>"

subsection \<open>Gemini client\<close>

definition msg_model_empty :: string where
  "msg_model_empty = ''GEMINI_MODEL vazio. Ex.: gemini-2.5-flash.''"

definition msg_model_invalid :: "string \<Rightarrow> string" where
  "msg_model_invalid m = ''GEMINI_MODEL inv'' @ [CHR 0xC3, CHR 0xA1] @ ''lido para Gemini: '' @ [CHR 0x27] @ m @ [CHR 0x27] @ ''. Use um modelo Gemini (ex.: gemini-2.5-flash).''"

definition msg_model_suspect :: "string \<Rightarrow> string" where
  "msg_model_suspect m = ''GEMINI_MODEL suspeito: '' @ [CHR 0x27] @ m @ [CHR 0x27] @ ''. Use um modelo que comece com '' @ [CHR 0x27] @ ''gemini-'' @ [CHR 0x27] @ ''.''"

definition msg_key_missing :: string where
  "msg_key_missing = ''GEMINI_API_KEY n'' @ [CHR 0xC3, CHR 0xA3] @ ''o configurada no .env.''"

definition msg_unknown_failure :: string where
  "msg_unknown_failure = ''Falha desconhecida no Gemini.''"


definition validate_gemini_model_name :: "string \<Rightarrow> exc + string" where
  "validate_gemini_model_name model =
     (let m0 = strip model in
      if m0 = [] then Inl (HTTPException 503 msg_model_empty)
      else
        (let m = (if starts_with m0 ''models/'' then strip (drop 7 m0) else m0);
             low = lower m
         in if contains low ''llama'' \<or> contains low ''mixtral''
              then Inl (HTTPException 422 (msg_model_invalid m))
            else if \<not> starts_with low ''gemini-''
              then Inl (HTTPException 422 (msg_model_suspect m))
            else Inr m))"

text \<open>\<open>_gemini_generate_once\<close>: the key and the model name are checked before the network is
  touched.\<close>

definition gemini_generate_once ::
  "config \<Rightarrow> world \<Rightarrow> prompt \<Rightarrow> string \<Rightarrow> int \<Rightarrow> trace \<Rightarrow> (exc + gen_out) \<times> trace" where
  "gemini_generate_once cfg w pr model max_output_tokens tr =
     (let tr1 = tr\<lparr>attempts := attempts tr + 1\<rparr> in
      if GEMINI_API_KEY cfg = [] then (Inl (HTTPException 503 msg_key_missing), tr1)
      else
        (case validate_gemini_model_name model of
           Inl e \<Rightarrow> (Inl e, tr1)
         | Inr m \<Rightarrow>
             (case urlopen w (net_calls tr)
                     \<lparr>rq_model = m, rq_prompt = pr, rq_temperature = 35 / 100,
                      rq_max_output_tokens = max_output_tokens, rq_top_p = 95 / 100\<rparr> of
                Raised e \<Rightarrow> (Inl e, tr1\<lparr>net_calls := net_calls tr + 1\<rparr>)
              | Returned r \<Rightarrow> (Inr r, tr1\<lparr>net_calls := net_calls tr + 1\<rparr>))))"

text \<open>The three \<open>except\<close> clauses of \<open>_gemini_generate\<close>, in their order: \<open>HTTPError\<close>,
  \<open>URLError\<close>, and \<open>Exception\<close>, which is every other exception, FastAPI's \<open>HTTPException\<close>
  among them. Each either raises the 502 or falls through to the backoff with \<open>last_err\<close>.\<close>

datatype decision = Reraise exc | Backoff string

definition on_error :: "config \<Rightarrow> world \<Rightarrow> int \<Rightarrow> exc \<Rightarrow> decision" where
  "on_error cfg w attempt e =
     (case e of
        HTTPError code body \<Rightarrow>
          (let last_err = ''Gemini HTTPError: '' @ show_int code @ '' '' @ take 300 body;
               retriable = (code = 429 \<or> code = 500 \<or> code = 503)
           in if \<not> retriable \<or> attempt \<ge> SNIX_RETRIES cfg
              then Reraise (HTTPException 502 last_err) else Backoff last_err)
      | URLError msg \<Rightarrow>
          (let last_err = ''Gemini URLError: '' @ take 200 (str_exc w e)
           in if attempt \<ge> SNIX_RETRIES cfg
              then Reraise (HTTPException 502 last_err) else Backoff last_err)
      | _ \<Rightarrow>
          (let last_err = ''Gemini erro inesperado: '' @ take 200 (str_exc w e)
           in if attempt \<ge> SNIX_RETRIES cfg
              then Reraise (HTTPException 502 last_err) else Backoff last_err))"

definition backoff_sleep :: "config \<Rightarrow> world \<Rightarrow> nat \<Rightarrow> trace \<Rightarrow> trace" where
  "backoff_sleep cfg w attempt tr =
     tr\<lparr>sleeps := sleeps tr
           @ [min (SNIX_BACKOFF_CAP cfg) (SNIX_BACKOFF_BASE cfg * 2 ^ attempt)
              + uniform w (length (sleeps tr))]\<rparr>"

text \<open>The loop \<open>for attempt in range(SNIX_RETRIES + 1)\<close>: \<open>k\<close> iterations are left, and
  \<open>attempt\<close> is the loop variable.\<close>

fun gemini_loop ::
  "config \<Rightarrow> world \<Rightarrow> prompt \<Rightarrow> string \<Rightarrow> int \<Rightarrow> nat \<Rightarrow> nat \<Rightarrow> string option \<Rightarrow> trace
     \<Rightarrow> (exc + gen_out) \<times> trace" where
  "gemini_loop cfg w pr model mx 0 attempt last_err tr =
     (Inl (HTTPException 502 (case last_err of None \<Rightarrow> msg_unknown_failure | Some e \<Rightarrow> e)), tr)"
| "gemini_loop cfg w pr model mx (Suc k) attempt last_err tr =
     (case gemini_generate_once cfg w pr model mx tr of
        (Inr r, tr1) \<Rightarrow> (Inr r, tr1)
      | (Inl e, tr1) \<Rightarrow>
          (case on_error cfg w (int attempt) e of
             Reraise e' \<Rightarrow> (Inl e', tr1)
           | Backoff err \<Rightarrow>
               gemini_loop cfg w pr model mx k (Suc attempt) (Some err)
                 (backoff_sleep cfg w attempt tr1)))"

definition gemini_generate ::
  "config \<Rightarrow> world \<Rightarrow> prompt \<Rightarrow> string \<Rightarrow> int \<Rightarrow> (exc + gen_out) \<times> trace" where
  "gemini_generate cfg w pr model mx =
     gemini_loop cfg w pr model mx (nat (SNIX_RETRIES cfg + 1)) 0 None no_trace"

subsection \<open>Coach: result, cache, fallback report\<close>

text \<open>\<open>stats_out\<close>: the statistics extended by the keys the endpoint adds; \<open>llm_meta\<close> is the
  gateway's \<open>meta\<close> or \<open>{"error": ...}\<close>.\<close>

datatype llm_meta = Meta gen_meta | MetaError string

record coach_stats = stats +
  cs_sleepMin :: real
  window_start_selected :: string
  window_end_selected :: string
  cs_used_past_only :: bool
  cs_future_count :: nat
  cs_llm_meta :: llm_meta
  cs_cache_key :: string

text \<open>The request and response models \<open>SnixCoachIn\<close> and \<open>SnixCoachOut\<close> (a field \<open>x\<close> is
  \<open>in_x\<close> and \<open>r_x\<close>).\<close>

record SnixCoachIn =
  in_days :: int
  in_max_items :: int
  in_focus :: string
  in_include_notes :: bool

record SnixCoachOut =
  r_ok :: bool
  r_coach :: string
  r_model :: string
  r_days :: int
  r_n_logs_used :: nat
  r_report :: string
  r_stats :: coach_stats

text \<open>\<open>_snix_cache\<close>: key to timestamp and value.\<close>

type_synonym cache = "string \<rightharpoonup> (real \<times> SnixCoachOut)"

definition cache_get :: "config \<Rightarrow> real \<Rightarrow> string \<Rightarrow> cache \<Rightarrow> SnixCoachOut option \<times> cache" where
  "cache_get cfg now key c =
     (case c key of
        None \<Rightarrow> (None, c)
      | Some (ts, v) \<Rightarrow>
          if now - ts > real_of_int (SNIX_CACHE_TTL_SEC cfg) then (None, c(key := None))
          else (Some v, c))"

definition cache_set :: "real \<Rightarrow> string \<Rightarrow> SnixCoachOut \<Rightarrow> cache \<Rightarrow> cache" where
  "cache_set now key v c = c(key \<mapsto> (now, v))"

definition str_opt :: "string option \<Rightarrow> string" where
  "str_opt x = (case x of None \<Rightarrow> ''None'' | Some s \<Rightarrow> s)"

text \<open>\<open>_snix_fallback_report\<close>: the lines read from the statistics, the two optional lines,
  and the fixed rest.\<close>

definition fallback_focus :: "string \<Rightarrow> string" where
  "fallback_focus focus = strip (if focus = [] then ''ansiedade'' else focus)"

definition fallback_head :: "world \<Rightarrow> coach_stats \<Rightarrow> string \<Rightarrow> string list" where
  "fallback_head w st focus' =
     [''# Snix (modo offline) '' @ [CHR 0xE2, CHR 0x80, CHR 0x94] @ '' foco: '' @ focus',
      [],
      ''## Leitura objetiva'',
      ''- Janela: '' @ str_opt (window_start st) @ '' '' @ [CHR 0xE2, CHR 0x86, CHR 0x92] @ '' '' @ str_opt (window_end st) @ '' ('' @ show_nat (stats_n st) @ '' registros)'',
      ''- Sono m'' @ [CHR 0xC3, CHR 0xA9] @ ''dio: '' @ repr_float w (avg_sleep st) @ ''h (meta: '' @ repr_float w (cs_sleepMin st) @ ''h)'',
      ''- Humor m'' @ [CHR 0xC3, CHR 0xA9] @ ''dio: '' @ repr_float w (avg_mood st) @ ''/10'',
      ''- Ansiedade m'' @ [CHR 0xC3, CHR 0xA9] @ ''dia: '' @ repr_float w (avg_anxiety st) @ ''/10 (limite: '' @ show_int (anxiety_limit st) @ '')'',
      ''- Dias acima do limite: '' @ show_nat (high_anxiety_days st),
      ''- Pico de ansiedade: '' @ show_int (peak_anxiety st) @ ''/10 em '' @ str_opt (peak_date st),
      ''- Treinos na janela: '' @ show_nat (workouts st)]"

definition fallback_optional :: "world \<Rightarrow> coach_stats \<Rightarrow> string list" where
  "fallback_optional w st =
     (case corr_sleep_vs_anxiety st of
        None \<Rightarrow> []
      | Some c \<Rightarrow> [''- Correla'' @ [CHR 0xC3, CHR 0xA7, CHR 0xC3, CHR 0xA3] @ ''o sono'' @ [CHR 0xC3, CHR 0x97] @ ''ansiedade: '' @ repr_float w c @ '' (sinal, n'' @ [CHR 0xC3, CHR 0xA3] @ ''o causalidade)''])
     @ (case train_effect st of
          None \<Rightarrow> []
        | Some t \<Rightarrow> [''- Efeito treino (heur'' @ [CHR 0xC3, CHR 0xAD] @ ''stico): '' @ repr_float w t @ '' (positivo sugere treino associado a menor ansiedade)''])"

definition fallback_tail :: "string list" where
  "fallback_tail =
     [[],
      ''## Plano m'' @ [CHR 0xC3, CHR 0xAD] @ ''nimo (7 dias)'',
      ''- 1) Sono: manter hor'' @ [CHR 0xC3, CHR 0xA1] @ ''rio fixo de dormir/acordar ('' @ [CHR 0xC2, CHR 0xB1] @ ''30 min).'',
      ''- 2) Treino: 10'' @ [CHR 0xE2, CHR 0x80, CHR 0x93] @ ''20 min em dias alternados (caminhada/for'' @ [CHR 0xC3, CHR 0xA7] @ ''a leve).'',
      ''- 3) Registro: preencher todos os dias (reduz vi'' @ [CHR 0xC3, CHR 0xA9] @ ''s e melhora an'' @ [CHR 0xC3, CHR 0xA1] @ ''lise).'',
      [],
      ''## Protocolo r'' @ [CHR 0xC3, CHR 0xA1] @ ''pido (1'' @ [CHR 0xE2, CHR 0x80, CHR 0x93] @ ''5 min)'',
      ''- Respira'' @ [CHR 0xC3, CHR 0xA7, CHR 0xC3, CHR 0xA3] @ ''o 4-6 (inspirar 4s, expirar 6s) por 2 min.'',
      ''- '' @ [CHR 0xE2, CHR 0x80, CHR 0x9C] @ ''Descarrego'' @ [CHR 0xE2, CHR 0x80, CHR 0x9D] @ '' mental: anotar 3 preocupa'' @ [CHR 0xC3, CHR 0xA7, CHR 0xC3, CHR 0xB5] @ ''es + 1 pr'' @ [CHR 0xC3, CHR 0xB3] @ ''xima a'' @ [CHR 0xC3, CHR 0xA7, CHR 0xC3, CHR 0xA3] @ ''o poss'' @ [CHR 0xC3, CHR 0xAD] @ ''vel (2 min).'',
      ''- Alongamento leve de pesco'' @ [CHR 0xC3, CHR 0xA7] @ ''o/ombros (1'' @ [CHR 0xE2, CHR 0x80, CHR 0x93] @ ''2 min).'',
      [],
      ''## 3 m'' @ [CHR 0xC3, CHR 0xA9] @ ''tricas para amanh'' @ [CHR 0xC3, CHR 0xA3],
      ''- Hor'' @ [CHR 0xC3, CHR 0xA1] @ ''rio de dormir e acordar (objetivo: consist'' @ [CHR 0xC3, CHR 0xAA] @ ''ncia).'',
      ''- Ansiedade (0'' @ [CHR 0xE2, CHR 0x80, CHR 0x93] @ ''10) antes de dormir.'',
      ''- Treino (sim/n'' @ [CHR 0xC3, CHR 0xA3] @ ''o + minutos).'',
      [],
      ''> Nota: Sem quota do Gemini, eu viro estat'' @ [CHR 0xC3, CHR 0xAD] @ ''stico. Quando a cota voltar, eu viro coach de novo.'']"

definition snix_fallback_report :: "world \<Rightarrow> coach_stats \<Rightarrow> string \<Rightarrow> string" where
  "snix_fallback_report w st focus =
     join_lines (fallback_head w st (fallback_focus focus) @ fallback_optional w st @ fallback_tail)"


subsection \<open>\<open>POST /coach/snix\<close>\<close>

definition msg_state_missing :: string where
  "msg_state_missing = ''State n'' @ [CHR 0xC3, CHR 0xA3] @ ''o inicializado (id=1 ausente).''"

definition msg_no_logs :: string where
  "msg_no_logs = ''Sem logs suficientes para an'' @ [CHR 0xC3, CHR 0xA1] @ ''lise do Snix.''"

definition msg_few_logs :: string where
  "msg_few_logs = ''Poucos dados na janela (m'' @ [CHR 0xC3, CHR 0xAD] @ ''nimo 3 dias).''"

definition msg_blocked :: string where
  "msg_blocked = ''Sem resposta do Snix: a API bloqueou o conte'' @ [CHR 0xC3, CHR 0xBA] @ ''do desta solicita'' @ [CHR 0xC3, CHR 0xA7, CHR 0xC3, CHR 0xA3] @ ''o.'' @ [CHR 0x0A] @ ''Tente foco diferente (ex.: '' @ [CHR 0x27] @ ''sono'' @ [CHR 0x27] @ '', '' @ [CHR 0x27] @ ''rotina'' @ [CHR 0x27] @ '') ou desative include_notes.''"

definition msg_empty_text :: string where
  "msg_empty_text = ''Sem resposta do Snix (texto vazio).'' @ [CHR 0x0A] @ ''Aumente a janela (ex.: 21 dias) ou reduza notas (include_notes=false).''"

definition msg_future_note :: string where
  "msg_future_note = [CHR 0x0A, CHR 0x0A] @ ''Nota t'' @ [CHR 0xC3, CHR 0xA9] @ ''cnica: detectei registros em datas futuras. A infer'' @ [CHR 0xC3, CHR 0xAA] @ ''ncia prioriza dados at'' @ [CHR 0xC3, CHR 0xA9] @ '' a data atual; o futuro '' @ [CHR 0xC3, CHR 0xA9] @ '' melhor como planejamento.''"


text \<open>\<open>SELECT ... FROM logs ORDER BY date DESC LIMIT ?\<close>.\<close>

definition select_logs_desc :: "store \<Rightarrow> int \<Rightarrow> log list" where
  "select_logs_desc s max_items = take (nat max_items) (rev (sort_key date (logs_table s)))"

text \<open>The projection \<open>compact\<close> of \<open>_build_snix_prompt\<close> (its keys are renamed copies of the
  log's), and the function itself.\<close>

definition compact_log :: "bool \<Rightarrow> log \<Rightarrow> log" where
  "compact_log include_notes l =
     l\<lparr>trainType := take 20 (trainType l),
       notes_text := (if include_notes then take 200 (notes_text l) else [])\<rparr>"

definition build_snix_prompt ::
  "(real \<Rightarrow> real \<Rightarrow> real) \<Rightarrow> goals \<Rightarrow> log list \<Rightarrow> string \<Rightarrow> bool \<Rightarrow> exc + prompt \<times> stats" where
  "build_snix_prompt pw g win focus include_notes =
     (case summarize_window pw g win of
        Inl e \<Rightarrow> Inl e
      | Inr st \<Rightarrow>
          Inr (\<lparr>pr_focus = take 40 (if focus = [] then ''ansiedade'' else focus),
                pr_goals = g, pr_stats = st,
                pr_logs = map (compact_log include_notes) win\<rparr>, st))"

definition make_cache_key :: "int \<Rightarrow> string \<Rightarrow> bool \<Rightarrow> string \<Rightarrow> nat \<Rightarrow> string" where
  "make_cache_key days focus include_notes used_end n =
     ''days='' @ show_int days @ ''|focus='' @ focus
       @ ''|notes='' @ (if include_notes then ''1'' else ''0'')
       @ ''|end='' @ used_end @ ''|n='' @ show_nat n"

text \<open>Everything \<open>snix_coach\<close> computes before the cache lookup (lines 848 to 885).\<close>

record prepared =
  pp_days :: int
  pp_focus :: string
  pp_goals :: goals
  pp_sel :: window_selection
  pp_prompt :: prompt
  pp_stats :: stats
  pp_cache_key :: string

definition coach_prepare ::
  "(real \<Rightarrow> real \<Rightarrow> real) \<Rightarrow> pydate \<Rightarrow> store \<Rightarrow> SnixCoachIn \<Rightarrow> exc + prepared" where
  "coach_prepare pw tdy s payload =
     (let days = max 3 (min 60 (in_days payload));
          max_items = max 10 (min 240 (in_max_items payload));
          focus = take 40 (strip (if in_focus payload = [] then ''ansiedade'' else in_focus payload));
          include_notes = in_include_notes payload
      in case state_row s of
           None \<Rightarrow> Inl (HTTPException 500 msg_state_missing)
         | Some g \<Rightarrow>
            (let logs_desc = select_logs_desc s max_items in
             if logs_desc = [] then Inl (HTTPException 422 msg_no_logs)
             else
               (case select_window_from_logs tdy logs_desc days of
                  Inl e \<Rightarrow> Inl e
                | Inr sel \<Rightarrow>
                    if length (window sel) < 3 then Inl (HTTPException 422 msg_few_logs)
                    else
                      (case build_snix_prompt pw g (window sel) focus include_notes of
                         Inl e \<Rightarrow> Inl e
                       | Inr (pr, st) \<Rightarrow>
                           Inr \<lparr>pp_days = days, pp_focus = focus, pp_goals = g, pp_sel = sel,
                                pp_prompt = pr, pp_stats = st,
                                pp_cache_key =
                                  make_cache_key days focus include_notes (used_end_date sel)
                                    (length (window sel))\<rparr>))))"

definition make_stats_out :: "prepared \<Rightarrow> llm_meta \<Rightarrow> coach_stats" where
  "make_stats_out p m =
     stats.extend (pp_stats p)
       (coach_stats.fields (sleepMin (pp_goals p)) (used_start_date (pp_sel p))
          (used_end_date (pp_sel p)) (used_past_only (pp_sel p)) (future_count (pp_sel p))
          m (pp_cache_key p))"

text \<open>The body of the \<open>try\<close> after the gateway has answered (lines 901 to 940).\<close>

definition coach_success :: "config \<Rightarrow> prepared \<Rightarrow> gen_out \<Rightarrow> exc + SnixCoachOut" where
  "coach_success cfg p out =
     (let report0 = strip (g_text out);
          m = g_meta out;
          blocked = (case block_reason m of None \<Rightarrow> False | Some b \<Rightarrow> b \<noteq> []);
          report1 = (if blocked then msg_blocked else report0);
          report2 = (if report1 = [] then msg_empty_text else report1);
          report3 = (if future_count (pp_sel p) > 0 then report2 @ msg_future_note else report2)
      in case validate_gemini_model_name (GEMINI_MODEL cfg) of
           Inl e \<Rightarrow> Inl e
         | Inr model_name \<Rightarrow>
             Inr \<lparr>r_ok = True, r_coach = ''Snix'', r_model = model_name, r_days = pp_days p,
                  r_n_logs_used = length (window (pp_sel p)), r_report = report3,
                  r_stats = make_stats_out p (Meta m)\<rparr>)"

text \<open>The \<open>except HTTPException\<close> clause (lines 945 to 977).\<close>

definition is_quota :: "string \<Rightarrow> bool" where
  "is_quota detail =
     (contains detail '' 429 '' \<or> contains detail ''RESOURCE_EXHAUSTED''
      \<or> contains detail ''exceeded your current quota'')"

definition coach_fallback :: "world \<Rightarrow> prepared \<Rightarrow> SnixCoachOut" where
  "coach_fallback w p =
     (let stats_out = make_stats_out p (MetaError ''quota_exhausted'') in
      \<lparr>r_ok = True, r_coach = ''Snix'', r_model = ''offline-fallback'', r_days = pp_days p,
       r_n_logs_used = length (window (pp_sel p)),
       r_report = snix_fallback_report w stats_out (pp_focus p),
       r_stats = stats_out\<rparr>)"

text \<open>\<open>snix_coach\<close>: the result, the cache after the request, and what the gateway did.\<close>

definition snix_coach ::
  "(real \<Rightarrow> real \<Rightarrow> real) \<Rightarrow> config \<Rightarrow> world \<Rightarrow> store \<Rightarrow> cache \<Rightarrow> SnixCoachIn \<Rightarrow> (exc + SnixCoachOut) \<times> cache \<times> trace" where
  "snix_coach pw cfg w s c payload =
     (case coach_prepare pw (today_safe w) s payload of
        Inl e \<Rightarrow> (Inl e, c, no_trace)
      | Inr p \<Rightarrow>
         (case cache_get cfg (time_get w) (pp_cache_key p) c of
            (Some cached, c1) \<Rightarrow> (Inr cached, c1, no_trace)
          | (None, c1) \<Rightarrow>
             (case gemini_generate cfg w (pp_prompt p) (GEMINI_MODEL cfg)
                     (SNIX_MAX_OUTPUT_TOKENS cfg) of
                (g, tr) \<Rightarrow>
                  (case (case g of Inl e \<Rightarrow> Inl e | Inr out \<Rightarrow> coach_success cfg p out) of
                     Inr result \<Rightarrow>
                       (Inr result, cache_set (time_set w) (pp_cache_key p) result c1, tr)
                   | Inl (HTTPException code detail) \<Rightarrow>
                       if is_quota detail
                       then (Inr (coach_fallback w p),
                             cache_set (time_set w) (pp_cache_key p) (coach_fallback w p) c1, tr)
                       else (Inl (HTTPException code detail), c1, tr)
                   | Inl e \<Rightarrow> (Inl e, c1, tr)))))"


subsection \<open>Example configuration\<close>

definition default_config :: config where
  "default_config =
     \<lparr>GEMINI_API_KEY = ''k'', GEMINI_MODEL = ''gemini-2.5-flash'', SNIX_CACHE_TTL_SEC = 900,
      SNIX_RETRIES = 3, SNIX_BACKOFF_BASE = 8 / 10, SNIX_BACKOFF_CAP = 8,
      SNIX_MAX_OUTPUT_TOKENS = 800\<rparr>"

definition example_request :: SnixCoachIn where
  "example_request =
     \<lparr>in_days = 14, in_max_items = 60, in_focus = ''ansiedade'', in_include_notes = True\<rparr>"

text \<open>A world in which every call of the provider answers 429, and one in which it answers
  with a text.\<close>

definition quota_world :: world where
  "quota_world =
     \<lparr>urlopen = (\<lambda>k rq. Raised (HTTPError 429 ''RESOURCE_EXHAUSTED'')),
      uniform = (\<lambda>k. 0), str_exc = (\<lambda>e. ''error''), repr_float = (\<lambda>x. ''x''),
      time_get = 1000, time_set = 1001, today_safe = 738892\<rparr>"

definition ok_world :: world where
  "ok_world =
     quota_world\<lparr>urlopen := (\<lambda>k rq. Returned
        \<lparr>g_text = ''ok'',
         g_meta = \<lparr>block_reason = None, finish_reason = Some ''STOP'', usage = None\<rparr>\<rparr>)\<rparr>"

text \<open>Two worlds in which the provider answers 400, a status that is not retried: with a body
  that mentions 429 between spaces, and with a body that does not.\<close>

definition marker_world :: world where
  "marker_world =
     quota_world\<lparr>urlopen := (\<lambda>k rq. Raised (HTTPError 400 ''bad 429 request''))\<rparr>"

definition bad_request_world :: world where
  "bad_request_world = quota_world\<lparr>urlopen := (\<lambda>k rq. Raised (HTTPError 400 ''bad''))\<rparr>"

text \<open>A store of eleven logs, on the eleven days up to 2024-01-07, and the example request
  with another \<open>max_items\<close>.\<close>

definition ten_logs :: "log list" where
  "ten_logs =
     [mk_log ''2023-12-29'' 7 False 4,
      mk_log ''2023-12-30'' 6 True 6,
      mk_log ''2023-12-31'' 7 False 5,
      mk_log ''2024-01-01'' 7 True 4,
      mk_log ''2024-01-02'' 6 False 5,
      mk_log ''2024-01-03'' 5 False 8,
      mk_log ''2024-01-04'' 6 True 7,
      mk_log ''2024-01-05'' 8 True 3,
      mk_log ''2024-01-06'' 5 False 9,
      mk_log ''2024-01-07'' 7 False 6]"

definition eleven_logs :: "log list" where
  "eleven_logs = mk_log ''2023-12-28'' 7 False 5 # ten_logs"

definition eleven_store :: store where
  "eleven_store = \<lparr>logs_table = eleven_logs, state_row = Some DEFAULT_GOALS\<rparr>"

definition request_items :: "int \<Rightarrow> SnixCoachIn" where
  "request_items k = example_request\<lparr>in_max_items := k\<rparr>"

section \<open>Properties\<close>

declare missing_loop.simps [simp del]

subsection \<open>Evaluating double arithmetic\<close>

lemmas fl_eval = fl_def scale_down.simps scale_up.simps round_half_even_def pow2_def

lemmas float_ops = fadd_def fsub_def fmul_def fdiv_def float_of_int_def int_true_div_def
  fsum_def py_round_def

lemma fl_zero: "fl 0 = 0"
  by (simp add: fl_def)

lemma round_half_even_nearest: "\<bar>of_int (round_half_even y) - y\<bar> \<le> 1 / 2"
  unfolding round_half_even_def Let_def by (auto; linarith)

subsection \<open>Returning, and the fields of the result\<close>

lemma missing_loop_returns:
  "date_min \<le> cur \<Longrightarrow> end_d < date_max \<Longrightarrow> \<exists>k. missing_loop have cur end_d m = Inr k"
proof (induction "have" cur end_d m rule: missing_loop.induct)
  case (1 "have" cur end_d missing)
  show ?case
  proof (cases "cur \<le> end_d")
    case True
    with 1(2,3) have step: "date_add cur 1 = Inr (cur + 1)"
      by (simp add: date_add_def date_min_def date_max_def)
    from 1(2) have "date_min \<le> cur + 1" by simp
    from 1(1)[OF True step this 1(3)] show ?thesis
      using True step by (subst missing_loop.simps) simp
  next
    case False
    then show ?thesis by (subst missing_loop.simps) simp
  qed
qed

lemma parse_all_Inr:
  "parse_all logs = Inr dts \<longleftrightarrow> map (\<lambda>l. parse_yyyy_mm_dd (date l)) logs = map Some dts"
proof (induction logs arbitrary: dts)
  case Nil
  then show ?case by auto
next
  case (Cons l ls)
  show ?case
  proof (cases "parse_yyyy_mm_dd (date l)")
    case None
    then show ?thesis by auto
  next
    case (Some d)
    show ?thesis
    proof (cases "parse_all ls")
      case (Inl e)
      with Cons.IH have "\<And>ds. map (\<lambda>l. parse_yyyy_mm_dd (date l)) ls \<noteq> map Some ds" by simp
      with Some Inl show ?thesis by (cases dts) auto
    next
      case (Inr ds)
      from Cons.IH[of ds] Inr have eq: "map (\<lambda>l. parse_yyyy_mm_dd (date l)) ls = map Some ds"
        by simp
      have "map Some ds = map Some ds' \<Longrightarrow> ds = ds'" for ds' :: "pydate list"
        by (simp add: inj_map_eq_map)
      with eq Some Inr show ?thesis by (cases dts) auto
    qed
  qed
qed

lemma summarize_window_returns:
  assumes "logs \<noteq> []" and "parse_all logs = Inr dts"
    and "\<forall>d \<in> set dts. date_min \<le> d \<and> d < date_max"
  shows "\<exists>st. summarize_window pw g logs = Inr st"
proof -
  from assms(1,2) have ne: "dts \<noteq> []" by (auto simp: parse_all_Inr)
  then have "Min (set dts) \<in> set dts" "Max (set dts) \<in> set dts"
    by (auto intro: Min_in Max_in)
  with assms(3) have "date_min \<le> Min (set dts)" "Max (set dts) < date_max" by auto
  then obtain k where "missing_loop dts (Min (set dts)) (Max (set dts)) 0 = Inr k"
    using missing_loop_returns by blast
  then show ?thesis using assms(1,2) ne
    by (simp add: summarize_window_def Let_def)
qed

lemma summarize_window_fields:
  assumes "summarize_window pw g logs = Inr st"
  shows "stats_n st = length logs"
    and "avg_anxiety st = py_round 2 (int_true_div (sum_list (map anxiety logs)) (int (length logs)))"
    and "high_anxiety_days st = length (filter (\<lambda>a. a > anxietyMax g) (map anxiety logs))"
    and "peak_anxiety st = max_list (map anxiety logs)"
    and "peak_date st = (if logs = [] then None else Some (date (logs ! index_of (max_list (map anxiety logs)) (map anxiety logs))))"
    and "train_effect st = train_effect_of (map anxiety logs) (map trained logs)"
    and "trend st = trend_of logs"
    and "logs \<noteq> []"
  using assms
  by (auto simp: summarize_window_def Let_def split: sum.splits if_splits)

lemmas date_simps = is_digit_def digit_val_def mk_date_def days_in_month_def ymd2ord_def
  days_before_year_def days_before_month_def is_leap_def

lemma parse_example_window:
  "parse_all example_window = Inr [738886, 738887, 738888, 738889, 738890, 738891, 738892]"
  by (simp add: example_window_def mk_log_def date_simps)

lemma train_zip_trained:
  "map fst (filter snd (zip (map anxiety logs) (map trained logs))) = map anxiety (filter trained logs)"
  by (induction logs) auto

lemma train_zip_not:
  "map fst (filter (\<lambda>p. \<not> snd p) (zip (map anxiety logs) (map trained logs)))
     = map anxiety (filter (\<lambda>l. \<not> trained l) logs)"
  by (induction logs) auto

subsection \<open>Training effect\<close>

lemma parse_tie_window:
  "parse_all tie_window = Inr [738886, 738887, 738888, 738889, 738890, 738891, 738892,
     738893, 738894, 738895, 738896, 738897, 738898, 738899, 738900, 738901, 738902,
     738903, 738904, 738905, 738906]"
  by (simp add: tie_window_def mk_log_def date_simps)

lemma tie_means:
  "mean_anxiety (filter (\<lambda>l. \<not> trained l) tie_window) = 7 / 16"
  "mean_anxiety (filter trained tie_window) = 3602879701896397 / 9007199254740992"
  by (simp_all add: tie_window_def mk_log_def mean_anxiety_def int_true_div_def fl_eval)

lemma tie_difference:
  "py_round 3 (fsub (7 / 16) (3602879701896397 / 9007199254740992)) = fl (37 / 1000)"
  by (simp add: float_ops fl_eval)

text \<open>
  Claim C7 reads the training effect as the difference of the two means rounded to 3
  decimals. The program computes the means, their difference and the rounding on doubles:
  on the window \<open>tie_window\<close> the means are 7/16 and 2/5, their difference is 0.0375, which
  rounds to 0.038, and the program returns the double 0.037, because the double nearest to
  2/5 lies above 2/5 and the double difference below 0.0375.
\<close>

theorem train_effect_tie_counterexample:
  "map_sum id train_effect (summarize_window rounded_pow DEFAULT_GOALS tie_window)
     = Inr (Some (fl (37 / 1000)))
   \<and> exact_mean_anxiety (filter (Not \<circ> trained) tie_window)
       - exact_mean_anxiety (filter trained tie_window) = 375 / 10000
   \<and> fl (37 / 1000) < 371 / 10000"
proof -
  obtain st where st: "summarize_window rounded_pow DEFAULT_GOALS tie_window = Inr st"
    using summarize_window_returns[OF _ parse_tie_window]
    by (auto simp: tie_window_def date_min_def date_max_def)
  have "train_effect st = train_effect_of (map anxiety tie_window) (map trained tie_window)"
    using st by (rule summarize_window_fields)
  also have "\<dots> = Some (py_round 3 (fsub (mean_anxiety (filter (\<lambda>l. \<not> trained l) tie_window))
                                         (mean_anxiety (filter trained tie_window))))"
    unfolding train_effect_of_def Let_def train_zip_trained train_zip_not mean_anxiety_def
    by (simp add: tie_window_def mk_log_def)
  also have "\<dots> = Some (fl (37 / 1000))"
    by (simp only: tie_means tie_difference)
  finally have 1: "map_sum id train_effect (summarize_window rounded_pow DEFAULT_GOALS tie_window)
     = Inr (Some (fl (37 / 1000)))"
    using st by simp
  have 2: "exact_mean_anxiety (filter (Not \<circ> trained) tie_window)
       - exact_mean_anxiety (filter trained tie_window) = 375 / 10000"
    by (simp add: tie_window_def mk_log_def exact_mean_anxiety_def)
  have 3: "fl (37 / 1000) < 371 / 10000"
    by (simp add: fl_eval)
  from 1 2 3 show ?thesis by (intro conjI)
qed

text \<open>
  Claim C7, amended. Whenever \<open>_summarize_window\<close> returns, \<open>train_effect\<close> is absent if all
  entries of the window share the same \<open>trained\<close> value (one of the two groups is empty).
  Otherwise it is \<open>round(d, 3)\<close> of the double \<open>d\<close>, the double difference of the double mean
  anxiety of the non-training days and the double mean anxiety of the training days: the
  double nearest to \<open>k / 1000\<close>, for an integer \<open>k\<close> at most one half away from \<open>1000 * d\<close>.
\<close>

theorem train_effect_absent_or_difference:
  assumes "summarize_window pw g logs = Inr st"
  shows "train_effect st =
     (if (\<forall>l \<in> set logs. trained l) \<or> (\<forall>l \<in> set logs. \<not> trained l) then None
      else Some (py_round 3 (fsub (mean_anxiety (filter (\<lambda>l. \<not> trained l) logs))
                                  (mean_anxiety (filter trained logs)))))
    \<and> (\<forall>r. train_effect st = Some r \<longrightarrow>
          (\<exists>k. r = fl (of_int k / 1000)
             \<and> \<bar>of_int k - 1000 * fsub (mean_anxiety (filter (\<lambda>l. \<not> trained l) logs))
                                       (mean_anxiety (filter trained logs))\<bar> \<le> 1 / 2))"
proof -
  let ?d = "fsub (mean_anxiety (filter (\<lambda>l. \<not> trained l) logs))
                 (mean_anxiety (filter trained logs))"
  have "train_effect st = train_effect_of (map anxiety logs) (map trained logs)"
    using assms by (rule summarize_window_fields)
  moreover have "filter trained logs = [] \<longleftrightarrow> (\<forall>l \<in> set logs. \<not> trained l)"
    by (simp add: filter_empty_conv)
  moreover have "filter (\<lambda>l. \<not> trained l) logs = [] \<longleftrightarrow> (\<forall>l \<in> set logs. trained l)"
    by (simp add: filter_empty_conv)
  ultimately have a: "train_effect st =
     (if (\<forall>l \<in> set logs. trained l) \<or> (\<forall>l \<in> set logs. \<not> trained l) then None
      else Some (py_round 3 ?d))"
    by (auto simp: train_effect_of_def Let_def train_zip_trained train_zip_not mean_anxiety_def)
  have "\<exists>k. r = fl (of_int k / 1000) \<and> \<bar>of_int k - 1000 * ?d\<bar> \<le> 1 / 2"
    if "train_effect st = Some r" for r
  proof -
    from that a have "r = py_round 3 ?d" by (auto split: if_splits)
    then have "r = fl (of_int (round_half_even (?d * 1000)) / 1000)"
      by (simp add: py_round_def)
    moreover have "\<bar>of_int (round_half_even (?d * 1000)) - 1000 * ?d\<bar> \<le> 1 / 2"
      using round_half_even_nearest[of "?d * 1000"] by (simp add: mult.commute)
    ultimately have "r = fl (of_int (round_half_even (?d * 1000)) / 1000)
        \<and> \<bar>of_int (round_half_even (?d * 1000)) - 1000 * ?d\<bar> \<le> 1 / 2"
      by (rule conjI)
    then show ?thesis by (rule exI)
  qed
  with a show ?thesis by simp
qed

text \<open>The window of the example has three training and four non-training days, with means
  14/3 and 7; the training effect is the double 2.333.\<close>

theorem train_effect_witness:
  "\<exists>st. summarize_window rounded_pow DEFAULT_GOALS example_window = Inr st
      \<and> train_effect st = Some (fl (2333 / 1000))"
proof -
  obtain st where st: "summarize_window rounded_pow DEFAULT_GOALS example_window = Inr st"
    using summarize_window_returns[OF _ parse_example_window]
    by (auto simp: example_window_def date_min_def date_max_def)
  have "train_effect st = Some (py_round 3 (fsub (mean_anxiety (filter (\<lambda>l. \<not> trained l) example_window))
                                  (mean_anxiety (filter trained example_window))))"
    using train_effect_absent_or_difference[OF st, THEN conjunct1]
    by (simp add: example_window_def mk_log_def)
  also have "\<dots> = Some (fl (2333 / 1000))"
    by (simp add: example_window_def mk_log_def mean_anxiety_def float_ops fl_eval)
  finally show ?thesis using st by simp
qed

subsection \<open>The end-to-end example of the specification\<close>

text \<open>
  Claim C3 gives \<open>high_anxiety_days = 2\<close>. On the example window (anxiety 4, 5, 8, 7, 3, 9, 6
  against the limit 6) the days counted as high are those of the values 8, 7 and 9: three
  days, not two.
\<close>

theorem summarize_example_high_days_counterexample:
  "map_sum id high_anxiety_days (summarize_window rounded_pow DEFAULT_GOALS example_window) = Inr 3"
proof -
  obtain st where st: "summarize_window rounded_pow DEFAULT_GOALS example_window = Inr st"
    using summarize_window_returns[OF _ parse_example_window]
    by (auto simp: example_window_def date_min_def date_max_def)
  from summarize_window_fields(3)[OF st] have "high_anxiety_days st = 3"
    by (simp add: example_window_def mk_log_def DEFAULT_GOALS_def)
  with st show ?thesis by simp
qed

lemma len7:
  assumes anx: "map anxiety logs = [4, 5, 8, 7, 3, 9, 6]"
  shows "length logs = 7"
proof -
  have "length (map anxiety logs) = 7" unfolding anx by simp
  then show ?thesis by simp
qed


text \<open>
  Claim C3, amended. With the default goals, on any window of 7 logs dated on 7 consecutive
  days ending at a day \<open>t\<close> before \<open>date.max\<close>, with anxiety values 4, 5, 8, 7, 3, 9, 6 and
  sleep values 7, 6, 5, 6, 8, 5, 7, \<open>_summarize_window\<close> returns statistics with
  \<open>avg_anxiety = 6.0\<close>, \<open>peak_anxiety = 9\<close> at the date of the 6th log,
  \<open>high_anxiety_days = 3\<close>, \<open>n = 7\<close> and the trend deltas present.
\<close>

theorem summarize_example_window:
  assumes anx: "map anxiety logs = [4, 5, 8, 7, 3, 9, 6]"
    and slp: "map sleep logs = [7, 6, 5, 6, 8, 5, 7]"
    and dates: "map (\<lambda>l. parse_yyyy_mm_dd (date l)) logs
                  = map Some [t - 6, t - 5, t - 4, t - 3, t - 2, t - 1, t]"
    and lo: "date_min \<le> t - 6" and hi: "t < date_max"
  shows "\<exists>st. summarize_window pw DEFAULT_GOALS logs = Inr st
           \<and> avg_anxiety st = 6
           \<and> peak_anxiety st = 9
           \<and> peak_date st = Some (date (logs ! 5))
           \<and> high_anxiety_days st = 3
           \<and> stats_n st = 7
           \<and> trend st \<noteq> None"
proof -
  have len: "length logs = 7" using anx by (rule len7)
  then have ne: "logs \<noteq> []" by auto
  from dates have pa: "parse_all logs = Inr [t - 6, t - 5, t - 4, t - 3, t - 2, t - 1, t]"
    by (simp add: parse_all_Inr)
  obtain st where st: "summarize_window pw DEFAULT_GOALS logs = Inr st"
    using summarize_window_returns[OF ne pa] lo hi by auto
  have "avg_anxiety st = 6"
    using summarize_window_fields(2)[OF st] by (simp add: anx len float_ops fl_eval)
  moreover have "peak_anxiety st = 9"
    using summarize_window_fields(4)[OF st] by (simp add: anx)
  moreover have "peak_date st = Some (date (logs ! 5))"
    using summarize_window_fields(5)[OF st] ne by (simp add: anx eval_nat_numeral)
  moreover have "high_anxiety_days st = 3"
    using summarize_window_fields(3)[OF st] by (simp add: anx DEFAULT_GOALS_def)
  moreover have "stats_n st = 7"
    using summarize_window_fields(1)[OF st] len by simp
  moreover have "trend st \<noteq> None"
    using summarize_window_fields(7)[OF st] len by (simp add: trend_of_def Let_def)
  ultimately show ?thesis using st by simp
qed


theorem summarize_example_window_witness:
  "\<exists>st. summarize_window rounded_pow DEFAULT_GOALS example_window = Inr st
           \<and> avg_anxiety st = 6
           \<and> peak_anxiety st = 9
           \<and> peak_date st = Some ''2024-01-06''
           \<and> high_anxiety_days st = 3
           \<and> stats_n st = 7
           \<and> trend st \<noteq> None"
proof -
  have a: "map anxiety example_window = [4, 5, 8, 7, 3, 9, 6]"
    by (simp add: example_window_def mk_log_def)
  have s: "map sleep example_window = [7, 6, 5, 6, 8, 5, 7]"
    by (simp add: example_window_def mk_log_def)
  have d: "map (\<lambda>l. parse_yyyy_mm_dd (date l)) example_window
       = map Some [738892 - 6, 738892 - 5, 738892 - 4, 738892 - 3, 738892 - 2, 738892 - 1, 738892]"
    using parse_example_window by (simp add: parse_all_Inr)
  have p: "date (example_window ! 5) = ''2024-01-06''"
    by (simp add: example_window_def mk_log_def eval_nat_numeral)
  show ?thesis
    using summarize_example_window[OF a s d] p
    by (simp add: date_min_def date_max_def)
qed

subsection \<open>Window selection\<close>

lemma past_only_window_entries:
  assumes "3 \<le> length (filter (is_past_or_today today) logs_desc)"
    and "select_window_from_logs today logs_desc days = Inr sel"
  shows "(\<forall>l \<in> set (window sel). \<exists>d. parse_yyyy_mm_dd (date l) = Some d \<and> d \<le> today)
         \<and> used_past_only sel"
proof -
  from assms(1) have base: "window_base today logs_desc = filter (is_past_or_today today) logs_desc"
    by (simp add: window_base_def Let_def)
  have "set (window sel) \<subseteq> set (filter (is_past_or_today today) logs_desc)"
    using assms(2) unfolding select_window_from_logs_def Let_def base
    by (auto split: if_splits option.splits sum.splits)
  moreover have "used_past_only sel"
    using assms unfolding select_window_from_logs_def Let_def
    by (auto split: if_splits option.splits sum.splits)
  ultimately show ?thesis
    by (auto simp: is_past_or_today_def split: option.splits)
qed

lemma future_select:
  "select_window_from_logs 738892 future_logs 14 = Inr sel \<Longrightarrow> window sel = rev future_logs"
  unfolding select_window_from_logs_def Let_def window_base_def
  by (auto simp add: future_logs_def mk_log_def date_simps is_past_or_today_def is_future_def
      in_range_def date_add_def date_min_def date_max_def)

lemma future_select_returns:
  "\<exists>sel. select_window_from_logs 738892 future_logs 14 = Inr sel"
  unfolding select_window_from_logs_def Let_def window_base_def
  by (simp add: future_logs_def mk_log_def date_simps is_past_or_today_def is_future_def
      in_range_def date_add_def date_min_def date_max_def)

text \<open>
  Claim C4. If at least 3 entries of the input are dated on or before the current date,
  then every entry of a window that \<open>_select_window_from_logs\<close> returns is dated on or before
  the current date, and \<open>used_past_only\<close> is true. With fewer than 3 such entries the base is
  the whole list, and a future-dated entry can be selected: on three logs dated after the
  current date the window holds them.
\<close>

theorem select_window_past_only:
  "(3 \<le> length (filter (is_past_or_today today) logs_desc) \<longrightarrow>
      (\<forall>sel. select_window_from_logs today logs_desc days = Inr sel \<longrightarrow>
         (\<forall>l \<in> set (window sel). \<exists>d. parse_yyyy_mm_dd (date l) = Some d \<and> d \<le> today)
         \<and> used_past_only sel))
   \<and> (length (filter (is_past_or_today today) logs_desc) < 3 \<longrightarrow>
        window_base today logs_desc = logs_desc)
   \<and> (length (filter (is_past_or_today 738892) future_logs) < 3
      \<and> (\<exists>sel. select_window_from_logs 738892 future_logs 14 = Inr sel
             \<and> \<not> used_past_only sel
             \<and> (\<exists>l \<in> set (window sel). is_future 738892 l)))"
proof -
  have a: "3 \<le> length (filter (is_past_or_today today) logs_desc) \<longrightarrow>
      (\<forall>sel. select_window_from_logs today logs_desc days = Inr sel \<longrightarrow>
         (\<forall>l \<in> set (window sel). \<exists>d. parse_yyyy_mm_dd (date l) = Some d \<and> d \<le> today)
         \<and> used_past_only sel)"
    using past_only_window_entries by blast
  have b: "length (filter (is_past_or_today today) logs_desc) < 3 \<longrightarrow>
        window_base today logs_desc = logs_desc"
    by (simp add: window_base_def Let_def)
  have c1: "length (filter (is_past_or_today 738892) future_logs) < 3"
    by (simp add: future_logs_def mk_log_def is_past_or_today_def date_simps)
  obtain sel where sel: "select_window_from_logs 738892 future_logs 14 = Inr sel"
    using future_select_returns by blast
  then have w: "window sel = rev future_logs" by (rule future_select)
  have "\<not> used_past_only sel"
    using sel c1 unfolding select_window_from_logs_def Let_def
    by (auto split: if_splits option.splits sum.splits)
  moreover have "\<exists>l \<in> set (window sel). is_future 738892 l"
    unfolding w by (simp add: future_logs_def mk_log_def is_future_def date_simps)
  ultimately have c: "\<exists>sel. select_window_from_logs 738892 future_logs 14 = Inr sel
             \<and> \<not> used_past_only sel
             \<and> (\<exists>l \<in> set (window sel). is_future 738892 l)"
    using sel by (intro exI[of _ sel]) simp
  from a b c1 c show ?thesis by (intro conjI)
qed




lemma mixed_parse:
  "map (\<lambda>l. parse_yyyy_mm_dd (date l)) mixed_logs = [Some 738894, Some 738892, Some 738891, Some 738890]"
  by (simp add: mixed_logs_def mk_log_def date_simps)

lemma mixed_base: "window_base 738892 mixed_logs = tl mixed_logs"
  by (simp add: window_base_def Let_def is_past_or_today_def mixed_logs_def mk_log_def date_simps)

lemma mixed_sorted: "sort_key date (tl mixed_logs) = rev (tl mixed_logs)"
  by (simp add: mixed_logs_def mk_log_def)


lemma mixed_three: "3 \<le> length (filter (is_past_or_today 738892) mixed_logs)"
  by (simp add: mixed_logs_def mk_log_def is_past_or_today_def date_simps)

lemma mixed_last: "parse_yyyy_mm_dd (date (last (rev (tl mixed_logs)))) = Some 738892"
  by (simp add: mixed_logs_def mk_log_def date_simps)

lemma mixed_window:
  "map date (filter (in_range 738879 738892) (rev (tl mixed_logs)))
     = [''2024-01-05'', ''2024-01-06'', ''2024-01-07'']"
  by (simp add: mixed_logs_def mk_log_def in_range_def date_simps)

lemma mixed_select:
  "\<exists>sel. select_window_from_logs 738892 mixed_logs 14 = Inr sel
         \<and> map date (window sel) = [''2024-01-05'', ''2024-01-06'', ''2024-01-07'']"
proof -
  have ne: "rev (tl mixed_logs) \<noteq> []" by (simp add: mixed_logs_def)
  have add: "date_add 738892 (- 13) = Inr 738879"
    by (simp add: date_add_def date_min_def date_max_def)
  show ?thesis
    unfolding select_window_from_logs_def Let_def mixed_base mixed_sorted
    using ne by (simp add: mixed_last add mixed_window)
qed

text \<open>Of four logs, one of them future-dated, the three past ones are selected.\<close>

theorem select_window_past_only_witness:
  "3 \<le> length (filter (is_past_or_today 738892) mixed_logs)
   \<and> (\<exists>sel. select_window_from_logs 738892 mixed_logs 14 = Inr sel
         \<and> map date (window sel) = [''2024-01-05'', ''2024-01-06'', ''2024-01-07'']
         \<and> used_past_only sel)"
proof -
  from mixed_select obtain sel where both:
    "select_window_from_logs 738892 mixed_logs 14 = Inr sel
       \<and> map date (window sel) = [''2024-01-05'', ''2024-01-06'', ''2024-01-07'']" ..
  from both have sel: "select_window_from_logs 738892 mixed_logs 14 = Inr sel"
    by (rule conjunct1)
  from both have w: "map date (window sel) = [''2024-01-05'', ''2024-01-06'', ''2024-01-07'']"
    by (rule conjunct2)
  have "used_past_only sel"
    using select_window_past_only[of 738892 mixed_logs 14, THEN conjunct1, rule_format,
        OF mixed_three sel]
    by (rule conjunct2)
  with sel w have "select_window_from_logs 738892 mixed_logs 14 = Inr sel
         \<and> map date (window sel) = [''2024-01-05'', ''2024-01-06'', ''2024-01-07'']
         \<and> used_past_only sel" by simp
  then have "\<exists>sel. select_window_from_logs 738892 mixed_logs 14 = Inr sel
         \<and> map date (window sel) = [''2024-01-05'', ''2024-01-06'', ''2024-01-07'']
         \<and> used_past_only sel" by (rule exI)
  with mixed_three show ?thesis by (rule conjI)
qed

subsection \<open>Window selection on a base whose last date does not parse\<close>

text \<open>
  Claim C10 says that \<open>_select_window_from_logs\<close> returns without error on every non-empty
  list. On the one-element list whose log is dated \<open>2024-13-40\<close> (a string the upsert
  endpoint accepts) the base is the whole list, and the unguarded parse of line 346 raises
  \<open>ValueError\<close>, for every current date and every number of days.
\<close>

theorem select_window_unparseable_end_raises:
  "select_window_from_logs today [l\<lparr>date := ''2024-13-40''\<rparr>] days = Inl ValueError"
  by (simp add: select_window_from_logs_def window_base_def is_past_or_today_def Let_def
      is_digit_def digit_val_def)


text \<open>
  A second way to an error, in \<open>_summarize_window\<close>: the loop over the calendar days steps past
  the last day of the window, and on a window that ends on 9999-12-31 (three future-dated
  logs, selected when fewer than three past ones exist) that step leaves the range of
  \<open>date\<close>.
\<close>

lemma last_days_parse: "parse_all last_days_logs = Inr [3652057, 3652058, 3652059]"
  by code_simp

lemma last_days_loop: "missing_loop [3652057, 3652058, 3652059] 3652057 3652059 0 = Inl OverflowError"
  by (simp add: missing_loop.simps[of _ 3652057] missing_loop.simps[of _ 3652058]
      missing_loop.simps[of _ 3652059] date_add_def date_min_def date_max_def)

lemma summarize_window_last_day_raises:
  "summarize_window pw g last_days_logs = Inl OverflowError"
proof -
  have mn: "Min (set [3652057, 3652058, 3652059 :: int]) = 3652057" by simp
  have mx: "Max (set [3652057, 3652058, 3652059 :: int]) = 3652059" by simp
  show ?thesis
    unfolding summarize_window_def Let_def last_days_parse
    by (simp only: sum.case list.distinct if_False mn mx last_days_loop)
qed

subsection \<open>Upserting a log\<close>

lemmas msg_defs = msg_date_format_def msg_sleep_range_def msg_sleepQual_range_def
  msg_foodScore_range_def msg_mood_range_def msg_anxiety_range_def msg_trainMin_range_def

text \<open>
  Claim C8. An upsert whose date string is not in the shape \<open>YYYY-MM-DD\<close> (such as
  \<open>2024/01/01\<close>) fails with the validation error 422 of the date format, and the store after
  the request is the store before it.
\<close>

theorem upsert_malformed_date_rejected:
  "date_shape_bad (p_date p) \<Longrightarrow>
     upsert_log p s = (Inl (HTTPException 422 msg_date_format), s)"
  by (simp add: upsert_log_def)

theorem upsert_malformed_date_rejected_witness:
  "date_shape_bad ''2024/01/01'' \<and>
   upsert_log (example_payload\<lparr>p_date := ''2024/01/01''\<rparr>) example_store
     = (Inl (HTTPException 422 msg_date_format), example_store)"
proof -
  have bad: "date_shape_bad (p_date (example_payload\<lparr>p_date := ''2024/01/01''\<rparr>))"
    by (simp add: date_shape_bad_def)
  from upsert_malformed_date_rejected[OF bad] bad show ?thesis by simp
qed

text \<open>
  Claim C9. The upsert raises the date-format error if and only if the date string fails the
  shape test (length 10, \<open>-\<close> at indices 4 and 7). The string \<open>2024-13-40\<close> passes the
  test and is no calendar date, and the upsert of the example payload under that date succeeds
  and stores the record under that key.
\<close>

theorem upsert_date_error_iff_shape:
  "(fst (upsert_log p s) = Inl (HTTPException 422 msg_date_format)) = date_shape_bad (p_date p)
   \<and> \<not> date_shape_bad ''2024-13-40''
   \<and> parse_yyyy_mm_dd ''2024-13-40'' = None
   \<and> fst (upsert_log (example_payload\<lparr>p_date := ''2024-13-40''\<rparr>) example_store) = Inr True
   \<and> lookup_row ''2024-13-40''
        (logs_table (snd (upsert_log (example_payload\<lparr>p_date := ''2024-13-40''\<rparr>) example_store)))
       = Some (row_of_payload (example_payload\<lparr>p_date := ''2024-13-40''\<rparr>))"
proof -
  have 1: "(fst (upsert_log p s) = Inl (HTTPException 422 msg_date_format)) = date_shape_bad (p_date p)"
    by (simp add: upsert_log_def msg_defs)
  have 2: "\<not> date_shape_bad ''2024-13-40''" by (simp add: date_shape_bad_def)
  have 3: "parse_yyyy_mm_dd ''2024-13-40'' = None" by (simp add: is_digit_def digit_val_def)
  have 4: "upsert_log (example_payload\<lparr>p_date := ''2024-13-40''\<rparr>) example_store
      = (Inr True, example_store\<lparr>logs_table :=
           upsert_row (row_of_payload (example_payload\<lparr>p_date := ''2024-13-40''\<rparr>)) example_window\<rparr>)"
    using 2 by (simp add: upsert_log_def example_payload_def example_store_def)
  have 5: "lookup_row ''2024-13-40''
       (upsert_row (row_of_payload (example_payload\<lparr>p_date := ''2024-13-40''\<rparr>)) example_window)
     = Some (row_of_payload (example_payload\<lparr>p_date := ''2024-13-40''\<rparr>))"
    by (simp add: lookup_row_def example_window_def mk_log_def row_of_payload_def example_payload_def)
  from 1 2 3 4 5 show ?thesis by simp
qed

theorem upsert_date_error_iff_shape_witness:
  "fst (upsert_log (example_payload\<lparr>p_date := ''2024/01/01''\<rparr>) example_store)
     = Inl (HTTPException 422 msg_date_format)"
proof -
  have "date_shape_bad (p_date (example_payload\<lparr>p_date := ''2024/01/01''\<rparr>))"
    by (simp add: date_shape_bad_def)
  with upsert_date_error_iff_shape[of "example_payload\<lparr>p_date := ''2024/01/01''\<rparr>" example_store]
  show ?thesis by blast
qed

subsection \<open>Strings and the gateway's errors\<close>

lemma contains_iff: "contains s n \<longleftrightarrow> (\<exists>a b. s = a @ n @ b)"
proof (induction s)
  case Nil
  then show ?case by auto
next
  case (Cons c cs)
  show ?case
  proof
    assume "contains (c # cs) n"
    then consider "starts_with (c # cs) n" | "contains cs n" by auto
    then show "\<exists>a b. c # cs = a @ n @ b"
    proof cases
      case 1
      then have "c # cs = [] @ n @ drop (length n) (c # cs)"
        unfolding starts_with_def by (metis append_Nil append_take_drop_id)
      then show ?thesis by blast
    next
      case 2
      with Cons.IH obtain a b where "cs = a @ n @ b" by blast
      then have "c # cs = (c # a) @ n @ b" by simp
      then show ?thesis by blast
    qed
  next
    assume "\<exists>a b. c # cs = a @ n @ b"
    then obtain a b where ab: "c # cs = a @ n @ b" by blast
    show "contains (c # cs) n"
    proof (cases a)
      case Nil
      with ab have "starts_with (c # cs) n" by (simp add: starts_with_def)
      then show ?thesis by simp
    next
      case (Cons x a')
      with ab have "cs = a' @ n @ b" by simp
      with Cons.IH have "contains cs n" by blast
      then show ?thesis by simp
    qed
  qed
qed

lemma contains_infix: "contains (a @ n @ b) n"
  unfolding contains_iff by blast

lemma contains_trans: "contains s m \<Longrightarrow> contains m n \<Longrightarrow> contains s n"
  unfolding contains_iff by (metis append.assoc)

lemma contains_join_lines: "l \<in> set ls \<Longrightarrow> contains (join_lines ls) l"
proof (induction ls rule: join_lines.induct)
  case 1
  then show ?case by simp
next
  case (2 x)
  then have "join_lines [x] = [] @ l @ []" by simp
  then show ?case unfolding contains_iff by blast
next
  case (3 x y ys)
  show ?case
  proof (cases "l = x")
    case True
    have "join_lines (x # y # ys) = [] @ x @ ([CHR 0x0A] @ join_lines (y # ys))" by simp
    then show ?thesis unfolding True contains_iff by blast
  next
    case False
    with 3 have "contains (join_lines (y # ys)) l" by simp
    then obtain a b where "join_lines (y # ys) = a @ l @ b" unfolding contains_iff by blast
    then have "join_lines (x # y # ys) = (x @ [CHR 0x0A] @ a) @ l @ b" by simp
    then show ?thesis unfolding contains_iff by blast
  qed
qed

lemma gemini_loop_raises_http:
  "gemini_loop cfg w pr model mx k attempt last_err tr = (Inl e, tr') \<Longrightarrow>
     \<exists>detail. e = HTTPException 502 detail"
proof (induction k arbitrary: attempt last_err tr)
  case 0
  then show ?case by auto
next
  case (Suc k)
  obtain g tr1 where once: "gemini_generate_once cfg w pr model mx tr = (g, tr1)"
    by (cases "gemini_generate_once cfg w pr model mx tr")
  show ?case
  proof (cases g)
    case (Inr r)
    with Suc.prems once show ?thesis by simp
  next
    case (Inl e0)
    show ?thesis
    proof (cases "on_error cfg w (int attempt) e0")
      case (Reraise e')
      then have "\<exists>detail. e' = HTTPException 502 detail"
        by (auto simp: on_error_def Let_def split: exc.splits if_splits)
      with Suc.prems once Inl Reraise show ?thesis by simp
    next
      case (Backoff err)
      with Suc.prems once Inl have
        "gemini_loop cfg w pr model mx k (Suc attempt) (Some err) (backoff_sleep cfg w attempt tr1)
           = (Inl e, tr')" by simp
      then show ?thesis by (rule Suc.IH)
    qed
  qed
qed

lemma gemini_generate_raises_http:
  "gemini_generate cfg w pr model mx = (Inl e, tr) \<Longrightarrow> \<exists>detail. e = HTTPException 502 detail"
  unfolding gemini_generate_def by (rule gemini_loop_raises_http)

lemma show_nat_429: "show_nat 429 = ''429''"
  by code_simp

lemma is_quota_429: "is_quota (''Gemini HTTPError: '' @ show_int 429 @ '' '' @ take 300 body)"
proof -
  have "''Gemini HTTPError: '' @ show_int 429 @ '' '' @ take 300 body
      = ''Gemini HTTPError:'' @ '' 429 '' @ take 300 body"
    by (simp add: show_int_def show_nat_429)
  then have "contains (''Gemini HTTPError: '' @ show_int 429 @ '' '' @ take 300 body) '' 429 ''"
    by (simp only: contains_infix)
  then show ?thesis by (simp add: is_quota_def)
qed

subsection \<open>Gateway: what is retried\<close>

lemma once_missing_key:
  "GEMINI_API_KEY cfg = [] \<Longrightarrow>
   gemini_generate_once cfg w pr model mx tr
     = (Inl (HTTPException 503 msg_key_missing), tr\<lparr>attempts := attempts tr + 1\<rparr>)"
  by (simp add: gemini_generate_once_def Let_def)

lemma on_error_http_exception:
  "on_error cfg w attempt (HTTPException code detail) =
     (if attempt \<ge> SNIX_RETRIES cfg
      then Reraise (HTTPException 502
             (''Gemini erro inesperado: '' @ take 200 (str_exc w (HTTPException code detail))))
      else Backoff (''Gemini erro inesperado: '' @ take 200 (str_exc w (HTTPException code detail))))"
  by (simp add: on_error_def Let_def)

text \<open>
  Claim C1 says that a missing API key fails on the first attempt, with no retry and no
  backoff sleep. With the default retry budget of 3 and no key, \<open>_gemini_generate\<close> calls
  \<open>_gemini_generate_once\<close> four times, sleeps three times in between, never reaches the
  network, and raises the 502 of the catch-all clause instead of the 503 raised inside: the
  \<open>HTTPException\<close> of the key check is caught by \<open>except Exception\<close>.
\<close>

theorem gemini_generate_missing_key_is_retried:
  "gemini_generate (default_config\<lparr>GEMINI_API_KEY := []\<rparr>) w pr ''gemini-2.5-flash'' 800
     = (Inl (HTTPException 502
              (''Gemini erro inesperado: ''
                 @ take 200 (str_exc w (HTTPException 503 msg_key_missing)))),
        \<lparr>attempts = 4, net_calls = 0,
         sleeps = [8 / 10 + uniform w 0, 16 / 10 + uniform w 1, 32 / 10 + uniform w 2]\<rparr>)"
  by (simp add: gemini_generate_def default_config_def eval_nat_numeral once_missing_key
      on_error_http_exception backoff_sleep_def no_trace_def)

subsection \<open>Response cache\<close>

lemma cache_get_fresh:
  "c key = Some (ts, v) \<Longrightarrow> now - ts \<le> real_of_int (SNIX_CACHE_TTL_SEC cfg) \<Longrightarrow>
     cache_get cfg now key c = (Some v, c)"
  by (simp add: cache_get_def)

lemma cache_get_expired:
  "c key = Some (ts, v) \<Longrightarrow> now - ts > real_of_int (SNIX_CACHE_TTL_SEC cfg) \<Longrightarrow>
     cache_get cfg now key c = (None, c(key := None))"
  by (simp add: cache_get_def)

lemma cache_get_Some:
  "cache_get cfg now key c = (Some v, c1) \<Longrightarrow> c1 = c \<and> (\<exists>ts. c key = Some (ts, v))"
  by (auto simp: cache_get_def split: option.splits if_splits)

lemma snix_coach_hit:
  assumes "coach_prepare pw (today_safe w) s payload = Inr p"
    and "c (pp_cache_key p) = Some (ts, v)"
    and "time_get w - ts \<le> real_of_int (SNIX_CACHE_TTL_SEC cfg)"
  shows "snix_coach pw cfg w s c payload = (Inr v, c, no_trace)"
  using assms by (simp add: snix_coach_def cache_get_fresh)

lemma snix_coach_Inr:
  assumes "snix_coach pw cfg w s c payload = (Inr r, c1, tr)"
  shows "\<exists>p ts. coach_prepare pw (today_safe w) s payload = Inr p
           \<and> c1 (pp_cache_key p) = Some (ts, r)
           \<and> (fst (cache_get cfg (time_get w) (pp_cache_key p) c) = None \<longrightarrow> ts = time_set w)"
proof (cases "coach_prepare pw (today_safe w) s payload")
  case (Inl e)
  with assms show ?thesis by (simp add: snix_coach_def)
next
  case (Inr p)
  obtain hit c' where cg: "cache_get cfg (time_get w) (pp_cache_key p) c = (hit, c')"
    by (cases "cache_get cfg (time_get w) (pp_cache_key p) c")
  show ?thesis
  proof (cases hit)
    case (Some v)
    with assms Inr cg have "v = r" "c1 = c'" by (simp_all add: snix_coach_def)
    with cache_get_Some[of cfg "time_get w" "pp_cache_key p" c v c'] cg Some
    have "\<exists>ts. c1 (pp_cache_key p) = Some (ts, r)" by auto
    with Inr cg Some show ?thesis by auto
  next
    case None
    obtain g tr' where gg: "gemini_generate cfg w (pp_prompt p) (GEMINI_MODEL cfg)
                     (SNIX_MAX_OUTPUT_TOKENS cfg) = (g, tr')"
      by (cases "gemini_generate cfg w (pp_prompt p) (GEMINI_MODEL cfg) (SNIX_MAX_OUTPUT_TOKENS cfg)")
    from assms Inr cg None gg
    have "c1 = cache_set (time_set w) (pp_cache_key p) r c'"
      by (auto simp: snix_coach_def split: sum.splits exc.splits if_splits)
    then have "c1 (pp_cache_key p) = Some (time_set w, r)" by (simp add: cache_set_def)
    with Inr show ?thesis by auto
  qed
qed

text \<open>
  Claim C6, amended. If a coach request returns a result \<open>r1\<close>, the cache afterwards holds
  \<open>r1\<close> under the request's key with a timestamp \<open>ts\<close> (the time of \<open>_cache_set\<close> when the
  request missed the cache and called upstream). Every request with the same payload (\<open>days\<close>,
  \<open>max_items\<close>, \<open>focus\<close> and \<open>include_notes\<close>) on the same store and the same current date
  whose lookup happens at most \<open>SNIX_CACHE_TTL_SEC\<close> after \<open>ts\<close> returns \<open>r1\<close> (report and stats
  included) and leaves the cache as it is, without any call of the gateway. On lookup, an
  entry older than the TTL is reported absent and removed from the cache.
\<close>

theorem coach_cache_idempotent:
  "(snix_coach pw cfg w1 s c0 payload = (Inr r1, c1, tr1) \<longrightarrow>
      (\<exists>p ts. coach_prepare pw (today_safe w1) s payload = Inr p
          \<and> c1 (pp_cache_key p) = Some (ts, r1)
          \<and> (fst (cache_get cfg (time_get w1) (pp_cache_key p) c0) = None \<longrightarrow> ts = time_set w1)
          \<and> (\<forall>w2. today_safe w2 = today_safe w1
                    \<and> time_get w2 - ts \<le> real_of_int (SNIX_CACHE_TTL_SEC cfg)
                 \<longrightarrow> snix_coach pw cfg w2 s c1 payload = (Inr r1, c1, no_trace))))
   \<and> (c key = Some (ts', v) \<and> now - ts' > real_of_int (SNIX_CACHE_TTL_SEC cfg)
        \<longrightarrow> cache_get cfg now key c = (None, c(key := None)))"
proof (intro conjI impI)
  assume first: "snix_coach pw cfg w1 s c0 payload = (Inr r1, c1, tr1)"
  note ex = snix_coach_Inr[OF first]
  from ex obtain p where "\<exists>ts. coach_prepare pw (today_safe w1) s payload = Inr p
           \<and> c1 (pp_cache_key p) = Some (ts, r1)
           \<and> (fst (cache_get cfg (time_get w1) (pp_cache_key p) c0) = None \<longrightarrow> ts = time_set w1)" ..
  then obtain ts where all: "coach_prepare pw (today_safe w1) s payload = Inr p
           \<and> c1 (pp_cache_key p) = Some (ts, r1)
           \<and> (fst (cache_get cfg (time_get w1) (pp_cache_key p) c0) = None \<longrightarrow> ts = time_set w1)" ..
  from all have p: "coach_prepare pw (today_safe w1) s payload = Inr p" by (rule conjunct1)
  from all have e: "c1 (pp_cache_key p) = Some (ts, r1)" by (elim conjE)
  from all have t: "fst (cache_get cfg (time_get w1) (pp_cache_key p) c0) = None \<longrightarrow> ts = time_set w1"
    by (elim conjE)
  have "\<forall>w2. today_safe w2 = today_safe w1
              \<and> time_get w2 - ts \<le> real_of_int (SNIX_CACHE_TTL_SEC cfg)
          \<longrightarrow> snix_coach pw cfg w2 s c1 payload = (Inr r1, c1, no_trace)"
    using p e by (auto intro: snix_coach_hit)
  with p e t have "coach_prepare pw (today_safe w1) s payload = Inr p
          \<and> c1 (pp_cache_key p) = Some (ts, r1)
          \<and> (fst (cache_get cfg (time_get w1) (pp_cache_key p) c0) = None \<longrightarrow> ts = time_set w1)
          \<and> (\<forall>w2. today_safe w2 = today_safe w1
                    \<and> time_get w2 - ts \<le> real_of_int (SNIX_CACHE_TTL_SEC cfg)
                 \<longrightarrow> snix_coach pw cfg w2 s c1 payload = (Inr r1, c1, no_trace))"
    by (intro conjI)
  then show "\<exists>p ts. coach_prepare pw (today_safe w1) s payload = Inr p
          \<and> c1 (pp_cache_key p) = Some (ts, r1)
          \<and> (fst (cache_get cfg (time_get w1) (pp_cache_key p) c0) = None \<longrightarrow> ts = time_set w1)
          \<and> (\<forall>w2. today_safe w2 = today_safe w1
                    \<and> time_get w2 - ts \<le> real_of_int (SNIX_CACHE_TTL_SEC cfg)
                 \<longrightarrow> snix_coach pw cfg w2 s c1 payload = (Inr r1, c1, no_trace))"
    by (intro exI)
next
  assume "c key = Some (ts', v) \<and> now - ts' > real_of_int (SNIX_CACHE_TTL_SEC cfg)"
  then show "cache_get cfg now key c = (None, c(key := None))"
    by (simp add: cache_get_expired)
qed

subsection \<open>Fallback on quota exhaustion\<close>

lemma contains_self_prefix: "contains (s @ t) s"
proof -
  have "s @ t = [] @ s @ t" by simp
  then show ?thesis unfolding contains_iff by blast
qed

lemma head_lines:
  "((''- Sono m'' @ [CHR 0xC3, CHR 0xA9] @ ''dio: '') @ repr_float w (avg_sleep st)) @ (''h (meta: '' @ repr_float w (cs_sleepMin st) @ ''h)'')
     \<in> set (fallback_head w st f)"
  "((''- Ansiedade m'' @ [CHR 0xC3, CHR 0xA9] @ ''dia: '') @ repr_float w (avg_anxiety st)) @ (''/10 (limite: '' @ show_int (anxiety_limit st) @ '')'')
     \<in> set (fallback_head w st f)"
  "(''- Dias acima do limite: '') @ show_nat (high_anxiety_days st) \<in> set (fallback_head w st f)"
  by (simp_all add: fallback_head_def)

lemma report_contains_head:
  "l \<in> set (fallback_head w st (fallback_focus f)) \<Longrightarrow> contains (snix_fallback_report w st f) l"
  unfolding snix_fallback_report_def by (rule contains_join_lines) simp

lemma report_readings:
  "contains (snix_fallback_report w st f) ((''- Sono m'' @ [CHR 0xC3, CHR 0xA9] @ ''dio: '') @ repr_float w (avg_sleep st))"
  "contains (snix_fallback_report w st f) ((''- Ansiedade m'' @ [CHR 0xC3, CHR 0xA9] @ ''dia: '') @ repr_float w (avg_anxiety st))"
  "contains (snix_fallback_report w st f) ((''- Dias acima do limite: '') @ show_nat (high_anxiety_days st))"
proof -
  show "contains (snix_fallback_report w st f) ((''- Sono m'' @ [CHR 0xC3, CHR 0xA9] @ ''dio: '') @ repr_float w (avg_sleep st))"
    by (rule contains_trans[OF report_contains_head[OF head_lines(1)] contains_self_prefix])
  show "contains (snix_fallback_report w st f) ((''- Ansiedade m'' @ [CHR 0xC3, CHR 0xA9] @ ''dia: '') @ repr_float w (avg_anxiety st))"
    by (rule contains_trans[OF report_contains_head[OF head_lines(2)] contains_self_prefix])
  show "contains (snix_fallback_report w st f) ((''- Dias acima do limite: '') @ show_nat (high_anxiety_days st))"
    by (rule report_contains_head[OF head_lines(3)])
qed

lemma stats_out_fields:
  "stats.truncate (make_stats_out p m) = pp_stats p"
  "avg_sleep (make_stats_out p m) = avg_sleep (pp_stats p)"
  "avg_anxiety (make_stats_out p m) = avg_anxiety (pp_stats p)"
  "high_anxiety_days (make_stats_out p m) = high_anxiety_days (pp_stats p)"
  by (simp_all add: make_stats_out_def stats.defs)

lemma fallback_result:
  "r_ok (coach_fallback w p)"
  "r_model (coach_fallback w p) = ''offline-fallback''"
  "stats.truncate (r_stats (coach_fallback w p)) = pp_stats p"
  "contains (r_report (coach_fallback w p)) ((''- Sono m'' @ [CHR 0xC3, CHR 0xA9] @ ''dio: '') @ repr_float w (avg_sleep (pp_stats p)))"
  "contains (r_report (coach_fallback w p)) ((''- Ansiedade m'' @ [CHR 0xC3, CHR 0xA9] @ ''dia: '') @ repr_float w (avg_anxiety (pp_stats p)))"
  "contains (r_report (coach_fallback w p)) ((''- Dias acima do limite: '') @ show_nat (high_anxiety_days (pp_stats p)))"
proof -
  let ?so = "make_stats_out p (MetaError ''quota_exhausted'')"
  have rep: "r_report (coach_fallback w p) = snix_fallback_report w ?so (pp_focus p)"
    by (simp add: coach_fallback_def Let_def)
  show "r_ok (coach_fallback w p)" by (simp add: coach_fallback_def Let_def)
  show "r_model (coach_fallback w p) = ''offline-fallback''"
    by (simp add: coach_fallback_def Let_def)
  show "stats.truncate (r_stats (coach_fallback w p)) = pp_stats p"
    by (simp add: coach_fallback_def Let_def stats_out_fields(1))
  show "contains (r_report (coach_fallback w p)) ((''- Sono m'' @ [CHR 0xC3, CHR 0xA9] @ ''dio: '') @ repr_float w (avg_sleep (pp_stats p)))"
    unfolding rep using report_readings(1)[of w ?so "pp_focus p"]
    by (simp only: stats_out_fields(2))
  show "contains (r_report (coach_fallback w p)) ((''- Ansiedade m'' @ [CHR 0xC3, CHR 0xA9] @ ''dia: '') @ repr_float w (avg_anxiety (pp_stats p)))"
    unfolding rep using report_readings(2)[of w ?so "pp_focus p"]
    by (simp only: stats_out_fields(3))
  show "contains (r_report (coach_fallback w p)) ((''- Dias acima do limite: '') @ show_nat (high_anxiety_days (pp_stats p)))"
    unfolding rep using report_readings(3)[of w ?so "pp_focus p"]
    by (simp only: stats_out_fields(4))
qed

lemma success_stats:
  "coach_success cfg p out = Inr r \<Longrightarrow> stats.truncate (r_stats r) = pp_stats p"
  by (auto simp: coach_success_def Let_def stats_out_fields split: sum.splits)

lemma on_error_http_final:
  "\<not> (code = 429 \<or> code = 500 \<or> code = 503) \<or> attempt \<ge> SNIX_RETRIES cfg \<Longrightarrow>
     on_error cfg w attempt (HTTPError code body)
       = Reraise (HTTPException 502 (''Gemini HTTPError: '' @ show_int code @ '' '' @ take 300 body))"
  by (auto simp: on_error_def Let_def)

lemma is_quota_markers:
  "is_quota d \<longleftrightarrow>
     (\<exists>a b. d = a @ '' 429 '' @ b) \<or> (\<exists>a b. d = a @ ''RESOURCE_EXHAUSTED'' @ b)
       \<or> (\<exists>a b. d = a @ ''exceeded your current quota'' @ b)"
  by (simp only: is_quota_def contains_iff)

lemma coach_run_on_gateway_error:
  assumes prep: "coach_prepare pw (today_safe w) s payload = Inr p"
    and miss: "cache_get cfg (time_get w) (pp_cache_key p) c = (None, c1)"
    and gw: "gemini_generate cfg w (pp_prompt p) (GEMINI_MODEL cfg) (SNIX_MAX_OUTPUT_TOKENS cfg)
            = (Inl (HTTPException code detail), tr)"
  shows "snix_coach pw cfg w s c payload =
      (if is_quota detail
       then (Inr (coach_fallback w p),
             cache_set (time_set w) (pp_cache_key p) (coach_fallback w p) c1, tr)
       else (Inl (HTTPException code detail), c1, tr))"
  using prep miss gw by (simp add: snix_coach_def)


lemma coach_quota_case:
  assumes prep: "coach_prepare pw (today_safe w) s payload = Inr p"
    and miss: "cache_get cfg (time_get w) (pp_cache_key p) c = (None, c1)"
    and gw: "gemini_generate cfg w (pp_prompt p) (GEMINI_MODEL cfg) (SNIX_MAX_OUTPUT_TOKENS cfg)
            = (Inl (HTTPException code detail), tr)"
    and q: "is_quota detail"
  shows "\<exists>r. snix_coach pw cfg w s c payload
                = (Inr r, cache_set (time_set w) (pp_cache_key p) r c1, tr)
           \<and> r_ok r \<and> r_model r = ''offline-fallback''
           \<and> stats.truncate (r_stats r) = pp_stats p
           \<and> contains (r_report r) ((''- Sono m'' @ [CHR 0xC3, CHR 0xA9] @ ''dio: '') @ repr_float w (avg_sleep (pp_stats p)))
           \<and> contains (r_report r) ((''- Ansiedade m'' @ [CHR 0xC3, CHR 0xA9] @ ''dia: '') @ repr_float w (avg_anxiety (pp_stats p)))
           \<and> contains (r_report r) ((''- Dias acima do limite: '') @ show_nat (high_anxiety_days (pp_stats p)))"
proof (rule exI[of _ "coach_fallback w p"], intro conjI)
  show "snix_coach pw cfg w s c payload
          = (Inr (coach_fallback w p),
             cache_set (time_set w) (pp_cache_key p) (coach_fallback w p) c1, tr)"
    unfolding coach_run_on_gateway_error[OF prep miss gw] using q by (simp only: if_True)
qed (rule fallback_result)+


text \<open>
  Claim C2, amended. Let the request reach the gateway (prepared as \<open>p\<close>, cache missed) and
  let the gateway fail with \<open>e\<close>. Then \<open>e\<close> is the gateway's 502 with some detail text. If the
  detail is classified as quota exhaustion, \<open>snix_coach\<close> returns a result with \<open>ok\<close>, model
  \<open>offline-fallback\<close>, the statistics \<open>pp_stats p\<close>, and a report that contains the lines of
  the average sleep, of the average anxiety and of the count of high-anxiety days, read from
  \<open>pp_stats p\<close>; the result is cached. Otherwise \<open>e\<close> propagates. A successful call carries
  the same statistics \<open>pp_stats p\<close>. The classification reads the detail text only: it holds
  exactly when the text has \<open>429\<close> between two spaces, \<open>RESOURCE_EXHAUSTED\<close> or
  \<open>exceeded your current quota\<close> somewhere in it. The detail of an HTTP error that ends the
  call (any status that is not retried, or the last attempt) is the status code followed by
  the first 300 characters of the body, so a final response of status 429 is always
  classified as quota exhaustion.
\<close>

theorem coach_quota_fallback:
  "(coach_prepare pw (today_safe w) s payload = Inr p
      \<and> cache_get cfg (time_get w) (pp_cache_key p) c = (None, c1)
      \<and> gemini_generate cfg w (pp_prompt p) (GEMINI_MODEL cfg) (SNIX_MAX_OUTPUT_TOKENS cfg)
            = (Inl e, tr)
    \<longrightarrow> (\<exists>detail. e = HTTPException 502 detail
          \<and> (is_quota detail \<longrightarrow> (\<exists>r. snix_coach pw cfg w s c payload
                           = (Inr r, cache_set (time_set w) (pp_cache_key p) r c1, tr)
                      \<and> r_ok r \<and> r_model r = ''offline-fallback''
                      \<and> stats.truncate (r_stats r) = pp_stats p
                      \<and> contains (r_report r) ((''- Sono m'' @ [CHR 0xC3, CHR 0xA9] @ ''dio: '') @ repr_float w (avg_sleep (pp_stats p)))
                      \<and> contains (r_report r) ((''- Ansiedade m'' @ [CHR 0xC3, CHR 0xA9] @ ''dia: '') @ repr_float w (avg_anxiety (pp_stats p)))
                      \<and> contains (r_report r)
                            ((''- Dias acima do limite: '') @ show_nat (high_anxiety_days (pp_stats p)))))
          \<and> (\<not> is_quota detail \<longrightarrow> snix_coach pw cfg w s c payload = (Inl e, c1, tr))))
   \<and> (coach_success cfg p out = Inr r' \<longrightarrow> stats.truncate (r_stats r') = pp_stats p)
   \<and> (\<not> (code = 429 \<or> code = 500 \<or> code = 503) \<or> attempt \<ge> SNIX_RETRIES cfg \<longrightarrow>
        on_error cfg w attempt (HTTPError code body)
          = Reraise (HTTPException 502
               (''Gemini HTTPError: '' @ show_int code @ '' '' @ take 300 body)))
   \<and> is_quota (''Gemini HTTPError: '' @ show_int 429 @ '' '' @ take 300 body')
   \<and> (is_quota d \<longleftrightarrow>
        (\<exists>a b. d = a @ '' 429 '' @ b) \<or> (\<exists>a b. d = a @ ''RESOURCE_EXHAUSTED'' @ b)
          \<or> (\<exists>a b. d = a @ ''exceeded your current quota'' @ b))"
proof -
  have main: "\<exists>detail. e = HTTPException 502 detail
          \<and> (is_quota detail \<longrightarrow> (\<exists>r. snix_coach pw cfg w s c payload
                           = (Inr r, cache_set (time_set w) (pp_cache_key p) r c1, tr)
                      \<and> r_ok r \<and> r_model r = ''offline-fallback''
                      \<and> stats.truncate (r_stats r) = pp_stats p
                      \<and> contains (r_report r) ((''- Sono m'' @ [CHR 0xC3, CHR 0xA9] @ ''dio: '') @ repr_float w (avg_sleep (pp_stats p)))
                      \<and> contains (r_report r) ((''- Ansiedade m'' @ [CHR 0xC3, CHR 0xA9] @ ''dia: '') @ repr_float w (avg_anxiety (pp_stats p)))
                      \<and> contains (r_report r)
                            ((''- Dias acima do limite: '') @ show_nat (high_anxiety_days (pp_stats p)))))
          \<and> (\<not> is_quota detail \<longrightarrow> snix_coach pw cfg w s c payload = (Inl e, c1, tr))"
    if prep: "coach_prepare pw (today_safe w) s payload = Inr p"
      and miss: "cache_get cfg (time_get w) (pp_cache_key p) c = (None, c1)"
      and gw: "gemini_generate cfg w (pp_prompt p) (GEMINI_MODEL cfg) (SNIX_MAX_OUTPUT_TOKENS cfg)
            = (Inl e, tr)"
  proof -
    from gemini_generate_raises_http[OF gw] obtain detail where e: "e = HTTPException 502 detail" ..
    note gw' = gw[unfolded e]
    have 1: "is_quota detail \<longrightarrow> (\<exists>r. snix_coach pw cfg w s c payload
                           = (Inr r, cache_set (time_set w) (pp_cache_key p) r c1, tr)
                      \<and> r_ok r \<and> r_model r = ''offline-fallback''
                      \<and> stats.truncate (r_stats r) = pp_stats p
                      \<and> contains (r_report r) ((''- Sono m'' @ [CHR 0xC3, CHR 0xA9] @ ''dio: '') @ repr_float w (avg_sleep (pp_stats p)))
                      \<and> contains (r_report r) ((''- Ansiedade m'' @ [CHR 0xC3, CHR 0xA9] @ ''dia: '') @ repr_float w (avg_anxiety (pp_stats p)))
                      \<and> contains (r_report r)
                            ((''- Dias acima do limite: '') @ show_nat (high_anxiety_days (pp_stats p))))"
      by (rule impI) (rule coach_quota_case[OF prep miss gw'])
    have 2: "\<not> is_quota detail \<longrightarrow> snix_coach pw cfg w s c payload = (Inl e, c1, tr)"
      unfolding coach_run_on_gateway_error[OF prep miss gw'] e by simp
    from e 1 2 have "e = HTTPException 502 detail
          \<and> (is_quota detail \<longrightarrow> (\<exists>r. snix_coach pw cfg w s c payload
                           = (Inr r, cache_set (time_set w) (pp_cache_key p) r c1, tr)
                      \<and> r_ok r \<and> r_model r = ''offline-fallback''
                      \<and> stats.truncate (r_stats r) = pp_stats p
                      \<and> contains (r_report r) ((''- Sono m'' @ [CHR 0xC3, CHR 0xA9] @ ''dio: '') @ repr_float w (avg_sleep (pp_stats p)))
                      \<and> contains (r_report r) ((''- Ansiedade m'' @ [CHR 0xC3, CHR 0xA9] @ ''dia: '') @ repr_float w (avg_anxiety (pp_stats p)))
                      \<and> contains (r_report r)
                            ((''- Dias acima do limite: '') @ show_nat (high_anxiety_days (pp_stats p)))))
          \<and> (\<not> is_quota detail \<longrightarrow> snix_coach pw cfg w s c payload = (Inl e, c1, tr))"
      by (intro conjI)
    then show ?thesis by (rule exI)
  qed
  have a: "coach_prepare pw (today_safe w) s payload = Inr p
      \<and> cache_get cfg (time_get w) (pp_cache_key p) c = (None, c1)
      \<and> gemini_generate cfg w (pp_prompt p) (GEMINI_MODEL cfg) (SNIX_MAX_OUTPUT_TOKENS cfg)
            = (Inl e, tr)
    \<longrightarrow> (\<exists>detail. e = HTTPException 502 detail
          \<and> (is_quota detail \<longrightarrow> (\<exists>r. snix_coach pw cfg w s c payload
                           = (Inr r, cache_set (time_set w) (pp_cache_key p) r c1, tr)
                      \<and> r_ok r \<and> r_model r = ''offline-fallback''
                      \<and> stats.truncate (r_stats r) = pp_stats p
                      \<and> contains (r_report r) ((''- Sono m'' @ [CHR 0xC3, CHR 0xA9] @ ''dio: '') @ repr_float w (avg_sleep (pp_stats p)))
                      \<and> contains (r_report r) ((''- Ansiedade m'' @ [CHR 0xC3, CHR 0xA9] @ ''dia: '') @ repr_float w (avg_anxiety (pp_stats p)))
                      \<and> contains (r_report r)
                            ((''- Dias acima do limite: '') @ show_nat (high_anxiety_days (pp_stats p)))))
          \<and> (\<not> is_quota detail \<longrightarrow> snix_coach pw cfg w s c payload = (Inl e, c1, tr)))"
    by (rule impI, elim conjE, rule main)
  have b: "coach_success cfg p out = Inr r' \<longrightarrow> stats.truncate (r_stats r') = pp_stats p"
    by (rule impI) (rule success_stats)
  have c: "\<not> (code = 429 \<or> code = 500 \<or> code = 503) \<or> attempt \<ge> SNIX_RETRIES cfg \<longrightarrow>
        on_error cfg w attempt (HTTPError code body)
          = Reraise (HTTPException 502
               (''Gemini HTTPError: '' @ show_int code @ '' '' @ take 300 body))"
    by (rule impI) (rule on_error_http_final)
  have d: "is_quota (''Gemini HTTPError: '' @ show_int 429 @ '' '' @ take 300 body')"
    by (rule is_quota_429)
  have f: "is_quota d \<longleftrightarrow>
        (\<exists>a b. d = a @ '' 429 '' @ b) \<or> (\<exists>a b. d = a @ ''RESOURCE_EXHAUSTED'' @ b)
          \<or> (\<exists>a b. d = a @ ''exceeded your current quota'' @ b)"
    by (rule is_quota_markers)
  from a b c d f show ?thesis by (intro conjI)
qed

subsection \<open>The example request, run against a provider out of quota and a provider that answers\<close>

lemma validate_default_model:
  "validate_gemini_model_name ''gemini-2.5-flash'' = Inr ''gemini-2.5-flash''"
  by code_simp

lemma example_logs_desc: "select_logs_desc example_store 60 = rev example_window"
  by (simp add: select_logs_desc_def example_store_def example_window_def mk_log_def)

lemma example_past: "filter (is_past_or_today 738892) (rev example_window) = rev example_window"
  by (simp add: example_window_def mk_log_def is_past_or_today_def date_simps)

lemma example_sorted: "sort_key date (rev example_window) = example_window"
  by (simp add: example_window_def mk_log_def)

lemma example_in_range: "filter (in_range 738879 738892) example_window = example_window"
  by (simp add: example_window_def mk_log_def in_range_def date_simps)

lemma example_select:
  "\<exists>sel. select_window_from_logs 738892 (rev example_window) 14 = Inr sel
      \<and> window sel = example_window"
proof -
  have len: "length example_window = 7" by (simp add: example_window_def)
  have base: "window_base 738892 (rev example_window) = rev example_window"
    by (simp add: window_base_def Let_def example_past len)
  have ne: "example_window \<noteq> []" by (simp add: example_window_def)
  have last: "parse_yyyy_mm_dd (date (last example_window)) = Some 738892"
    by (simp add: example_window_def mk_log_def date_simps)
  have add: "date_add 738892 (- 13) = Inr 738879"
    by (simp add: date_add_def date_min_def date_max_def)
  show ?thesis
    unfolding select_window_from_logs_def Let_def base example_sorted
    using ne by (simp add: last add example_in_range)
qed


lemma example_prepare:
  "\<exists>p. coach_prepare pw 738892 example_store example_request = Inr p"
proof -
  from example_select obtain sel where both:
    "select_window_from_logs 738892 (rev example_window) 14 = Inr sel
       \<and> window sel = example_window" ..
  then have sel: "select_window_from_logs 738892 (rev example_window) 14 = Inr sel"
    and win: "window sel = example_window" by simp_all
  obtain st where st: "summarize_window pw DEFAULT_GOALS example_window = Inr st"
    using summarize_window_returns[OF _ parse_example_window]
    by (auto simp: example_window_def date_min_def date_max_def)
  have ne: "rev example_window \<noteq> []" by (simp add: example_window_def)
  have len: "length example_window = 7" by (simp add: example_window_def)
  have focus: "in_focus example_request \<noteq> []" by (simp add: example_request_def)
  have goals: "state_row example_store = Some DEFAULT_GOALS" by (simp add: example_store_def)
  have d: "max 3 (min 60 (in_days example_request)) = 14"
    and m: "max 10 (min 240 (in_max_items example_request)) = 60"
    by (simp_all add: example_request_def)
  show ?thesis
    unfolding coach_prepare_def Let_def d m goals example_logs_desc
    using ne by (simp add: sel win len build_snix_prompt_def st)
qed

lemma quota_gateway:
  "gemini_generate default_config quota_world pr ''gemini-2.5-flash'' 800
     = (Inl (HTTPException 502
               (''Gemini HTTPError: '' @ show_int 429 @ '' '' @ take 300 ''RESOURCE_EXHAUSTED'')),
        \<lparr>attempts = 4, net_calls = 4, sleeps = [8 / 10, 16 / 10, 32 / 10]\<rparr>)"
proof -
  have once: "gemini_generate_once default_config quota_world pr ''gemini-2.5-flash'' 800 tr
      = (Inl (HTTPError 429 ''RESOURCE_EXHAUSTED''),
         tr\<lparr>attempts := attempts tr + 1, net_calls := net_calls tr + 1\<rparr>)" for tr
    by (simp add: gemini_generate_once_def Let_def validate_default_model default_config_def
        quota_world_def)
  have err: "on_error default_config quota_world a (HTTPError 429 ''RESOURCE_EXHAUSTED'')
      = (if a \<ge> 3
         then Reraise (HTTPException 502
                (''Gemini HTTPError: '' @ show_int 429 @ '' '' @ take 300 ''RESOURCE_EXHAUSTED''))
         else Backoff (''Gemini HTTPError: '' @ show_int 429 @ '' '' @ take 300 ''RESOURCE_EXHAUSTED''))"
    for a
    by (simp add: on_error_def Let_def default_config_def)
  have retries: "nat (SNIX_RETRIES default_config + 1) = Suc (Suc (Suc (Suc 0)))"
    by (simp add: default_config_def)
  have sl: "backoff_sleep default_config quota_world a tr
      = tr\<lparr>sleeps := sleeps tr @ [min 8 (8 / 10 * 2 ^ a)]\<rparr>" for a tr
    by (simp add: backoff_sleep_def default_config_def quota_world_def)
  show ?thesis
    unfolding gemini_generate_def retries
    by (simp add: once err sl no_trace_def)
qed

lemma ok_gateway:
  "gemini_generate default_config ok_world pr ''gemini-2.5-flash'' 800
     = (Inr \<lparr>g_text = ''ok'',
              g_meta = \<lparr>block_reason = None, finish_reason = Some ''STOP'', usage = None\<rparr>\<rparr>,
        \<lparr>attempts = 1, net_calls = 1, sleeps = []\<rparr>)"
proof -
  have retries: "nat (SNIX_RETRIES default_config + 1) = Suc (Suc (Suc (Suc 0)))"
    by (simp add: default_config_def)
  show ?thesis
    unfolding gemini_generate_def retries
    by (simp add: gemini_generate_once_def Let_def validate_default_model default_config_def
        ok_world_def quota_world_def no_trace_def)
qed




lemma marker_gateway:
  "gemini_generate default_config marker_world pr ''gemini-2.5-flash'' 800
     = (Inl (HTTPException 502
               (''Gemini HTTPError: '' @ show_int 400 @ '' '' @ take 300 ''bad 429 request'')),
        \<lparr>attempts = 1, net_calls = 1, sleeps = []\<rparr>)"
proof -
  have retries: "nat (SNIX_RETRIES default_config + 1) = Suc (Suc (Suc (Suc 0)))"
    by (simp add: default_config_def)
  show ?thesis
    unfolding gemini_generate_def retries
    by (simp add: gemini_generate_once_def on_error_def Let_def validate_default_model
        default_config_def marker_world_def quota_world_def no_trace_def)
qed

lemma bad_request_gateway:
  "gemini_generate default_config bad_request_world pr ''gemini-2.5-flash'' 800
     = (Inl (HTTPException 502
               (''Gemini HTTPError: '' @ show_int 400 @ '' '' @ take 300 ''bad'')),
        \<lparr>attempts = 1, net_calls = 1, sleeps = []\<rparr>)"
proof -
  have retries: "nat (SNIX_RETRIES default_config + 1) = Suc (Suc (Suc (Suc 0)))"
    by (simp add: default_config_def)
  show ?thesis
    unfolding gemini_generate_def retries
    by (simp add: gemini_generate_once_def on_error_def Let_def validate_default_model
        default_config_def bad_request_world_def quota_world_def no_trace_def)
qed

lemma details_400:
  "''Gemini HTTPError: '' @ show_int 400 @ '' '' @ take 300 ''bad 429 request''
     = ''Gemini HTTPError: 400 bad 429 request''"
  "''Gemini HTTPError: '' @ show_int 400 @ '' '' @ take 300 ''bad''
     = ''Gemini HTTPError: 400 bad''"
  by code_simp+

lemma is_quota_400:
  "is_quota ''Gemini HTTPError: 400 bad 429 request''"
  "\<not> is_quota ''Gemini HTTPError: 400 bad''"
  by code_simp+

text \<open>
  Claim C2 lets every gateway error propagate that is not a quota exhaustion, that is, of
  status 429 or with a resource-exhaustion marker in its detail. A response of status 400
  with the body \<open>bad 429 request\<close> is neither, and is not retried; its detail
  \<open>Gemini HTTPError: 400 bad 429 request\<close> has \<open>429\<close> between two spaces, and the request is
  answered by the fallback after one attempt.
\<close>

theorem coach_fallback_status_400_counterexample:
  "map_sum id r_model
      (fst (snix_coach rounded_pow default_config marker_world example_store Map.empty
              example_request))
     = Inr ''offline-fallback''
   \<and> snd (snd (snix_coach rounded_pow default_config marker_world example_store Map.empty
              example_request))
     = \<lparr>attempts = 1, net_calls = 1, sleeps = []\<rparr>"
proof -
  from example_prepare obtain p where
    prep0: "coach_prepare rounded_pow 738892 example_store example_request = Inr p" ..
  have tdm: "today_safe marker_world = 738892" by (simp add: marker_world_def quota_world_def)
  have prepm: "coach_prepare rounded_pow (today_safe marker_world) example_store example_request = Inr p"
    unfolding tdm by (rule prep0)
  have missm: "cache_get default_config (time_get marker_world) (pp_cache_key p) Map.empty
      = (None, Map.empty)" by (simp add: cache_get_def)
  have mdl: "GEMINI_MODEL default_config = ''gemini-2.5-flash''"
    and mx: "SNIX_MAX_OUTPUT_TOKENS default_config = 800" by (simp_all add: default_config_def)
  have gw: "gemini_generate default_config marker_world (pp_prompt p) (GEMINI_MODEL default_config)
       (SNIX_MAX_OUTPUT_TOKENS default_config)
     = (Inl (HTTPException 502 ''Gemini HTTPError: 400 bad 429 request''),
        \<lparr>attempts = 1, net_calls = 1, sleeps = []\<rparr>)"
    unfolding mdl mx using marker_gateway[of "pp_prompt p"] by (simp only: details_400)
  have "snix_coach rounded_pow default_config marker_world example_store Map.empty example_request
      = (Inr (coach_fallback marker_world p),
         cache_set (time_set marker_world) (pp_cache_key p) (coach_fallback marker_world p) Map.empty,
         \<lparr>attempts = 1, net_calls = 1, sleeps = []\<rparr>)"
    unfolding coach_run_on_gateway_error[OF prepm missm gw] using is_quota_400(1)
    by (simp only: if_True)
  then show ?thesis by (simp add: fallback_result(2))
qed

text \<open>Default configuration. Every call answered 429: four attempts, then the fallback. Every
  call answered 400 with the body \<open>bad\<close>: one attempt, and the error propagates.\<close>

theorem coach_quota_fallback_witness:
  "(\<exists>r c tr. snix_coach rounded_pow default_config quota_world example_store Map.empty example_request
              = (Inr r, c, tr)
        \<and> r_ok r \<and> r_model r = ''offline-fallback'' \<and> attempts tr = 4)
   \<and> snix_coach rounded_pow default_config bad_request_world example_store Map.empty example_request
       = (Inl (HTTPException 502 ''Gemini HTTPError: 400 bad''), Map.empty,
          \<lparr>attempts = 1, net_calls = 1, sleeps = []\<rparr>)"
proof -
  from example_prepare obtain p where
    prep0: "coach_prepare rounded_pow 738892 example_store example_request = Inr p" ..
  have tdq: "today_safe quota_world = 738892" by (simp add: quota_world_def quota_world_def)
  have prepq: "coach_prepare rounded_pow (today_safe quota_world) example_store example_request = Inr p"
    unfolding tdq by (rule prep0)
  have missq: "cache_get default_config (time_get quota_world) (pp_cache_key p) Map.empty
      = (None, Map.empty)" by (simp add: cache_get_def)
  have tdb: "today_safe bad_request_world = 738892" by (simp add: bad_request_world_def quota_world_def)
  have prepb: "coach_prepare rounded_pow (today_safe bad_request_world) example_store example_request = Inr p"
    unfolding tdb by (rule prep0)
  have missb: "cache_get default_config (time_get bad_request_world) (pp_cache_key p) Map.empty
      = (None, Map.empty)" by (simp add: cache_get_def)
  have mdl: "GEMINI_MODEL default_config = ''gemini-2.5-flash''"
    and mx: "SNIX_MAX_OUTPUT_TOKENS default_config = 800" by (simp_all add: default_config_def)
  let ?d = "''Gemini HTTPError: '' @ show_int 429 @ '' '' @ take 300 ''RESOURCE_EXHAUSTED''"
  let ?tr = "\<lparr>attempts = 4, net_calls = 4, sleeps = [8 / 10, 16 / 10, 32 / 10 :: real]\<rparr>"
  let ?b = "''Gemini HTTPError: 400 bad''"
  let ?tb = "\<lparr>attempts = 1, net_calls = 1, sleeps = [] :: real list\<rparr>"
  have gw: "gemini_generate default_config quota_world (pp_prompt p) (GEMINI_MODEL default_config)
       (SNIX_MAX_OUTPUT_TOKENS default_config) = (Inl (HTTPException 502 ?d), ?tr)"
    unfolding mdl mx by (rule quota_gateway)
  have gwb: "gemini_generate default_config bad_request_world (pp_prompt p)
       (GEMINI_MODEL default_config) (SNIX_MAX_OUTPUT_TOKENS default_config)
     = (Inl (HTTPException 502 ?b), ?tb)"
    unfolding mdl mx using bad_request_gateway[of "pp_prompt p"] by (simp only: details_400)
  note inst = coach_quota_fallback[of rounded_pow quota_world example_store example_request p
      default_config "Map.empty" "Map.empty" "HTTPException 502 ?d" "?tr", THEN conjunct1,
      rule_format, OF conjI[OF prepq conjI[OF missq gw]]]
  from inst obtain detail where dd: "HTTPException 502 ?d = HTTPException 502 detail
      \<and> (is_quota detail \<longrightarrow>
            (\<exists>r. snix_coach rounded_pow default_config quota_world example_store Map.empty example_request
                  = (Inr r, cache_set (time_set quota_world) (pp_cache_key p) r Map.empty, ?tr)
               \<and> r_ok r \<and> r_model r = ''offline-fallback''
               \<and> stats.truncate (r_stats r) = pp_stats p
               \<and> contains (r_report r) ((''- Sono m'' @ [CHR 0xC3, CHR 0xA9] @ ''dio: '') @ repr_float quota_world (avg_sleep (pp_stats p)))
               \<and> contains (r_report r) ((''- Ansiedade m'' @ [CHR 0xC3, CHR 0xA9] @ ''dia: '') @ repr_float quota_world (avg_anxiety (pp_stats p)))
               \<and> contains (r_report r) ((''- Dias acima do limite: '') @ show_nat (high_anxiety_days (pp_stats p)))))
      \<and> (\<not> is_quota detail \<longrightarrow>
            snix_coach rounded_pow default_config quota_world example_store Map.empty example_request
              = (Inl (HTTPException 502 ?d), Map.empty, ?tr))" ..
  from dd have deq: "detail = ?d" by simp
  have q: "is_quota detail" unfolding deq by (rule is_quota_429)
  from dd have imp: "is_quota detail \<longrightarrow> (\<exists>r. snix_coach rounded_pow default_config quota_world example_store Map.empty example_request
                  = (Inr r, cache_set (time_set quota_world) (pp_cache_key p) r Map.empty, ?tr)
               \<and> r_ok r \<and> r_model r = ''offline-fallback''
               \<and> stats.truncate (r_stats r) = pp_stats p
               \<and> contains (r_report r) ((''- Sono m'' @ [CHR 0xC3, CHR 0xA9] @ ''dio: '') @ repr_float quota_world (avg_sleep (pp_stats p)))
               \<and> contains (r_report r) ((''- Ansiedade m'' @ [CHR 0xC3, CHR 0xA9] @ ''dia: '') @ repr_float quota_world (avg_anxiety (pp_stats p)))
               \<and> contains (r_report r) ((''- Dias acima do limite: '') @ show_nat (high_anxiety_days (pp_stats p))))"
    by (elim conjE)
  from imp q have "\<exists>r. snix_coach rounded_pow default_config quota_world example_store Map.empty example_request
                  = (Inr r, cache_set (time_set quota_world) (pp_cache_key p) r Map.empty, ?tr)
               \<and> r_ok r \<and> r_model r = ''offline-fallback''
               \<and> stats.truncate (r_stats r) = pp_stats p
               \<and> contains (r_report r) ((''- Sono m'' @ [CHR 0xC3, CHR 0xA9] @ ''dio: '') @ repr_float quota_world (avg_sleep (pp_stats p)))
               \<and> contains (r_report r) ((''- Ansiedade m'' @ [CHR 0xC3, CHR 0xA9] @ ''dia: '') @ repr_float quota_world (avg_anxiety (pp_stats p)))
               \<and> contains (r_report r) ((''- Dias acima do limite: '') @ show_nat (high_anxiety_days (pp_stats p)))" by (rule mp)
  then obtain r where r: "snix_coach rounded_pow default_config quota_world example_store Map.empty example_request
                  = (Inr r, cache_set (time_set quota_world) (pp_cache_key p) r Map.empty, ?tr)
               \<and> r_ok r \<and> r_model r = ''offline-fallback''
               \<and> stats.truncate (r_stats r) = pp_stats p
               \<and> contains (r_report r) ((''- Sono m'' @ [CHR 0xC3, CHR 0xA9] @ ''dio: '') @ repr_float quota_world (avg_sleep (pp_stats p)))
               \<and> contains (r_report r) ((''- Ansiedade m'' @ [CHR 0xC3, CHR 0xA9] @ ''dia: '') @ repr_float quota_world (avg_anxiety (pp_stats p)))
               \<and> contains (r_report r) ((''- Dias acima do limite: '') @ show_nat (high_anxiety_days (pp_stats p)))" ..
  from r have r1: "snix_coach rounded_pow default_config quota_world example_store Map.empty example_request
              = (Inr r, cache_set (time_set quota_world) (pp_cache_key p) r Map.empty, ?tr)"
    by (rule conjunct1)
  from r have r2: "r_ok r" by (elim conjE)
  from r have r3: "r_model r = ''offline-fallback''" by (elim conjE)
  have r4: "attempts ?tr = 4" by simp
  from r1 r2 r3 r4 have "snix_coach rounded_pow default_config quota_world example_store Map.empty example_request
              = (Inr r, cache_set (time_set quota_world) (pp_cache_key p) r Map.empty, ?tr)
        \<and> r_ok r \<and> r_model r = ''offline-fallback'' \<and> attempts ?tr = 4"
    by (intro conjI)
  then have first: "\<exists>r c tr. snix_coach rounded_pow default_config quota_world example_store Map.empty example_request
              = (Inr r, c, tr)
        \<and> r_ok r \<and> r_model r = ''offline-fallback'' \<and> attempts tr = 4"
    by (intro exI)
  note instb = coach_quota_fallback[of rounded_pow bad_request_world example_store example_request p
      default_config "Map.empty" "Map.empty" "HTTPException 502 ?b" "?tb", THEN conjunct1,
      rule_format, OF conjI[OF prepb conjI[OF missb gwb]]]
  from instb obtain detail' where ddb: "HTTPException 502 ?b = HTTPException 502 detail'
      \<and> (is_quota detail' \<longrightarrow>
            (\<exists>r. snix_coach rounded_pow default_config bad_request_world example_store Map.empty example_request
                  = (Inr r, cache_set (time_set bad_request_world) (pp_cache_key p) r Map.empty, ?tb)
               \<and> r_ok r \<and> r_model r = ''offline-fallback''
               \<and> stats.truncate (r_stats r) = pp_stats p
               \<and> contains (r_report r) ((''- Sono m'' @ [CHR 0xC3, CHR 0xA9] @ ''dio: '') @ repr_float bad_request_world (avg_sleep (pp_stats p)))
               \<and> contains (r_report r) ((''- Ansiedade m'' @ [CHR 0xC3, CHR 0xA9] @ ''dia: '') @ repr_float bad_request_world (avg_anxiety (pp_stats p)))
               \<and> contains (r_report r) ((''- Dias acima do limite: '') @ show_nat (high_anxiety_days (pp_stats p)))))
      \<and> (\<not> is_quota detail' \<longrightarrow>
            snix_coach rounded_pow default_config bad_request_world example_store Map.empty example_request
              = (Inl (HTTPException 502 ?b), Map.empty, ?tb))" ..
  from ddb have deqb: "detail' = ?b" by simp
  have nq: "\<not> is_quota detail'" unfolding deqb by (rule is_quota_400(2))
  from ddb have impb: "\<not> is_quota detail' \<longrightarrow>
            snix_coach rounded_pow default_config bad_request_world example_store Map.empty example_request
              = (Inl (HTTPException 502 ?b), Map.empty, ?tb)"
    by (elim conjE)
  from impb nq have second: "snix_coach rounded_pow default_config bad_request_world example_store Map.empty example_request
              = (Inl (HTTPException 502 ?b), Map.empty, ?tb)" by (rule mp)
  from first second show ?thesis by (rule conjI)
qed

lemma ok_first_run:
  "\<exists>r c. snix_coach rounded_pow default_config ok_world example_store Map.empty example_request
            = (Inr r, c, \<lparr>attempts = 1, net_calls = 1, sleeps = []\<rparr>)"
proof -
  from example_prepare obtain p where
    prep0: "coach_prepare rounded_pow 738892 example_store example_request = Inr p" ..
  have td: "today_safe ok_world = 738892" by (simp add: ok_world_def quota_world_def)
  have prep: "coach_prepare rounded_pow (today_safe ok_world) example_store example_request = Inr p"
    unfolding td by (rule prep0)
  have miss: "cache_get default_config (time_get ok_world) (pp_cache_key p) Map.empty
      = (None, Map.empty)" by (simp add: cache_get_def)
  have mdl: "GEMINI_MODEL default_config = ''gemini-2.5-flash''"
    and mx: "SNIX_MAX_OUTPUT_TOKENS default_config = 800" by (simp_all add: default_config_def)
  have succ: "\<exists>r. coach_success default_config p out = Inr r" for out
    by (simp add: coach_success_def Let_def mdl validate_default_model)
  let ?out = "\<lparr>g_text = ''ok'',
              g_meta = \<lparr>block_reason = None, finish_reason = Some ''STOP'', usage = None\<rparr>\<rparr>"
  from succ[of ?out] obtain r where r: "coach_success default_config p ?out = Inr r" ..
  have "snix_coach rounded_pow default_config ok_world example_store Map.empty example_request
      = (Inr r, cache_set (time_set ok_world) (pp_cache_key p) r Map.empty,
         \<lparr>attempts = 1, net_calls = 1, sleeps = []\<rparr>)"
    using prep miss r by (simp add: snix_coach_def mdl mx ok_gateway)
  then show ?thesis by (intro exI)
qed

text \<open>A first request at time 1000 (stored at 1001) and the same request at time 1900.\<close>

theorem coach_cache_idempotent_witness:
  "\<exists>r c. snix_coach rounded_pow default_config ok_world example_store Map.empty example_request
            = (Inr r, c, \<lparr>attempts = 1, net_calls = 1, sleeps = []\<rparr>)
       \<and> snix_coach rounded_pow default_config (ok_world\<lparr>time_get := 1900\<rparr>) example_store c example_request
            = (Inr r, c, no_trace)"
proof -
  let ?tr = "\<lparr>attempts = 1, net_calls = 1, sleeps = [] :: real list\<rparr>"
  from ok_first_run obtain r where "\<exists>c. snix_coach rounded_pow default_config ok_world example_store
      Map.empty example_request = (Inr r, c, ?tr)" ..
  then obtain c where first: "snix_coach rounded_pow default_config ok_world example_store
      Map.empty example_request = (Inr r, c, ?tr)" ..
  note inst = coach_cache_idempotent[of rounded_pow default_config ok_world example_store "Map.empty"
      example_request r c "?tr", THEN conjunct1, rule_format, OF first]
  from inst obtain p where "\<exists>ts. coach_prepare rounded_pow (today_safe ok_world) example_store example_request = Inr p
          \<and> c (pp_cache_key p) = Some (ts, r)
          \<and> (fst (cache_get default_config (time_get ok_world) (pp_cache_key p) Map.empty) = None
                 \<longrightarrow> ts = time_set ok_world)
          \<and> (\<forall>w2. today_safe w2 = today_safe ok_world
                    \<and> time_get w2 - ts \<le> real_of_int (SNIX_CACHE_TTL_SEC default_config)
                 \<longrightarrow> snix_coach rounded_pow default_config w2 example_store c example_request
                       = (Inr r, c, no_trace))" ..
  then obtain ts where all: "coach_prepare rounded_pow (today_safe ok_world) example_store example_request = Inr p
          \<and> c (pp_cache_key p) = Some (ts, r)
          \<and> (fst (cache_get default_config (time_get ok_world) (pp_cache_key p) Map.empty) = None
                 \<longrightarrow> ts = time_set ok_world)
          \<and> (\<forall>w2. today_safe w2 = today_safe ok_world
                    \<and> time_get w2 - ts \<le> real_of_int (SNIX_CACHE_TTL_SEC default_config)
                 \<longrightarrow> snix_coach rounded_pow default_config w2 example_store c example_request
                       = (Inr r, c, no_trace))" ..
  from all have t: "fst (cache_get default_config (time_get ok_world) (pp_cache_key p) Map.empty) = None
                 \<longrightarrow> ts = time_set ok_world" by (elim conjE)
  have "fst (cache_get default_config (time_get ok_world) (pp_cache_key p) Map.empty) = None"
    by (simp add: cache_get_def)
  with t have ts: "ts = 1001" by (simp add: ok_world_def quota_world_def)
  from all have second: "\<forall>w2. today_safe w2 = today_safe ok_world
                    \<and> time_get w2 - ts \<le> real_of_int (SNIX_CACHE_TTL_SEC default_config)
                 \<longrightarrow> snix_coach rounded_pow default_config w2 example_store c example_request
                       = (Inr r, c, no_trace)" by (elim conjE)
  have cond: "today_safe (ok_world\<lparr>time_get := 1900\<rparr>) = today_safe ok_world
      \<and> time_get (ok_world\<lparr>time_get := 1900\<rparr>) - ts
            \<le> real_of_int (SNIX_CACHE_TTL_SEC default_config)"
    by (simp add: ts default_config_def)
  from second[rule_format, OF cond] first
  have "snix_coach rounded_pow default_config ok_world example_store Map.empty example_request = (Inr r, c, ?tr)
       \<and> snix_coach rounded_pow default_config (ok_world\<lparr>time_get := 1900\<rparr>) example_store c example_request
            = (Inr r, c, no_trace)" by (intro conjI)
  then show ?thesis by (intro exI)
qed

subsection \<open>Two requests that differ in \<open>max_items\<close>\<close>

lemma days_before_december:
  "days_before_month 2023 12 = 334" "days_before_month 2024 1 = 0"
  by code_simp+

lemmas december_simps = is_digit_def digit_val_def mk_date_def days_in_month_def ymd2ord_def
  days_before_year_def days_before_december is_leap_def

lemma parse_ten_logs:
  "parse_all ten_logs = Inr [738883, 738884, 738885, 738886, 738887, 738888, 738889, 738890,
     738891, 738892]"
  by (simp add: ten_logs_def mk_log_def december_simps)

lemma parse_eleven_logs:
  "parse_all eleven_logs = Inr [738882, 738883, 738884, 738885, 738886, 738887, 738888, 738889,
     738890, 738891, 738892]"
  using parse_ten_logs by (simp add: eleven_logs_def mk_log_def december_simps)

lemma eleven_sorted: "sort_key date eleven_logs = eleven_logs"
  by (simp add: eleven_logs_def ten_logs_def mk_log_def)

lemma ten_sorted: "sort_key date (rev ten_logs) = ten_logs"
  by (simp add: ten_logs_def mk_log_def)

lemma eleven_sorted_rev: "sort_key date (rev eleven_logs) = eleven_logs"
  by (simp add: eleven_logs_def ten_logs_def mk_log_def)

lemma eleven_logs_desc:
  "select_logs_desc eleven_store 11 = rev eleven_logs"
  "select_logs_desc eleven_store 10 = rev ten_logs"
proof -
  have len: "length ten_logs = 10" by (simp add: ten_logs_def)
  have tbl: "logs_table eleven_store = eleven_logs" by (simp add: eleven_store_def)
  show "select_logs_desc eleven_store 11 = rev eleven_logs"
    by (simp only: select_logs_desc_def tbl eleven_sorted) (simp add: eleven_logs_def len)
  show "select_logs_desc eleven_store 10 = rev ten_logs"
    by (simp only: select_logs_desc_def tbl eleven_sorted) (simp add: eleven_logs_def len)
qed

lemma eleven_select:
  "\<exists>sel. select_window_from_logs 738892 (rev eleven_logs) 14 = Inr sel
      \<and> window sel = eleven_logs \<and> used_end_date sel = isoformat 738892"
proof -
  have len: "length eleven_logs = 11" by (simp add: eleven_logs_def ten_logs_def)
  have past: "filter (is_past_or_today 738892) (rev eleven_logs) = rev eleven_logs"
    by (simp add: eleven_logs_def ten_logs_def mk_log_def is_past_or_today_def december_simps)
  have base: "window_base 738892 (rev eleven_logs) = rev eleven_logs"
    by (simp add: window_base_def Let_def past len)
  have ne: "eleven_logs \<noteq> []" by (simp add: eleven_logs_def)
  have last: "parse_yyyy_mm_dd (date (last eleven_logs)) = Some 738892"
    by (simp add: eleven_logs_def ten_logs_def mk_log_def december_simps)
  have add: "date_add 738892 (- 13) = Inr 738879"
    by (simp add: date_add_def date_min_def date_max_def)
  have rng: "filter (in_range 738879 738892) eleven_logs = eleven_logs"
    by (simp add: eleven_logs_def ten_logs_def mk_log_def in_range_def december_simps)
  show ?thesis
    unfolding select_window_from_logs_def Let_def base eleven_sorted_rev
    using ne by (simp add: last add rng)
qed

lemma ten_select:
  "\<exists>sel. select_window_from_logs 738892 (rev ten_logs) 14 = Inr sel
      \<and> window sel = ten_logs \<and> used_end_date sel = isoformat 738892"
proof -
  have len: "length ten_logs = 10" by (simp add: ten_logs_def)
  have past: "filter (is_past_or_today 738892) (rev ten_logs) = rev ten_logs"
    by (simp add: ten_logs_def mk_log_def is_past_or_today_def december_simps)
  have base: "window_base 738892 (rev ten_logs) = rev ten_logs"
    by (simp add: window_base_def Let_def past len)
  have ne: "ten_logs \<noteq> []" by (simp add: ten_logs_def)
  have last: "parse_yyyy_mm_dd (date (last ten_logs)) = Some 738892"
    by (simp add: ten_logs_def mk_log_def december_simps)
  have add: "date_add 738892 (- 13) = Inr 738879"
    by (simp add: date_add_def date_min_def date_max_def)
  have rng: "filter (in_range 738879 738892) ten_logs = ten_logs"
    by (simp add: ten_logs_def mk_log_def in_range_def december_simps)
  show ?thesis
    unfolding select_window_from_logs_def Let_def base ten_sorted
    using ne by (simp add: last add rng)
qed

lemma eleven_prepare:
  "\<exists>p. coach_prepare pw 738892 eleven_store (request_items 11) = Inr p
      \<and> pp_cache_key p
          = make_cache_key 14 (take 40 (strip ''ansiedade'')) True (isoformat 738892) 11
      \<and> length (window (pp_sel p)) = 11"
proof -
  from eleven_select obtain sel where both:
    "select_window_from_logs 738892 (rev eleven_logs) 14 = Inr sel
       \<and> window sel = eleven_logs \<and> used_end_date sel = isoformat 738892" ..
  then have sel: "select_window_from_logs 738892 (rev eleven_logs) 14 = Inr sel"
    and win: "window sel = eleven_logs" and ue: "used_end_date sel = isoformat 738892"
    by simp_all
  obtain st where st: "summarize_window pw DEFAULT_GOALS eleven_logs = Inr st"
    using summarize_window_returns[OF _ parse_eleven_logs]
    by (auto simp: eleven_logs_def date_min_def date_max_def)
  have ne: "rev eleven_logs \<noteq> []" by (simp add: eleven_logs_def)
  have len: "length eleven_logs = 11" by (simp add: eleven_logs_def ten_logs_def)
  have goals: "state_row eleven_store = Some DEFAULT_GOALS" by (simp add: eleven_store_def)
  have d: "max 3 (min 60 (in_days (request_items 11))) = 14"
    and m: "max 10 (min 240 (in_max_items (request_items 11))) = 11"
    and f: "in_focus (request_items 11) = ''ansiedade''"
    and i: "in_include_notes (request_items 11) = True"
    by (simp_all add: request_items_def example_request_def)
  show ?thesis
    unfolding coach_prepare_def Let_def d m f i goals eleven_logs_desc
    using ne by (simp add: sel win ue len build_snix_prompt_def st)
qed

lemma ten_prepare:
  "\<exists>p. coach_prepare pw 738892 eleven_store (request_items 10) = Inr p
      \<and> pp_cache_key p
          = make_cache_key 14 (take 40 (strip ''ansiedade'')) True (isoformat 738892) 10
      \<and> length (window (pp_sel p)) = 10"
proof -
  from ten_select obtain sel where both:
    "select_window_from_logs 738892 (rev ten_logs) 14 = Inr sel
       \<and> window sel = ten_logs \<and> used_end_date sel = isoformat 738892" ..
  then have sel: "select_window_from_logs 738892 (rev ten_logs) 14 = Inr sel"
    and win: "window sel = ten_logs" and ue: "used_end_date sel = isoformat 738892"
    by simp_all
  obtain st where st: "summarize_window pw DEFAULT_GOALS ten_logs = Inr st"
    using summarize_window_returns[OF _ parse_ten_logs]
    by (auto simp: ten_logs_def date_min_def date_max_def)
  have ne: "rev ten_logs \<noteq> []" by (simp add: ten_logs_def)
  have len: "length ten_logs = 10" by (simp add: ten_logs_def)
  have goals: "state_row eleven_store = Some DEFAULT_GOALS" by (simp add: eleven_store_def)
  have d: "max 3 (min 60 (in_days (request_items 10))) = 14"
    and m: "max 10 (min 240 (in_max_items (request_items 10))) = 10"
    and f: "in_focus (request_items 10) = ''ansiedade''"
    and i: "in_include_notes (request_items 10) = True"
    by (simp_all add: request_items_def example_request_def)
  show ?thesis
    unfolding coach_prepare_def Let_def d m f i goals eleven_logs_desc
    using ne by (simp add: sel win ue len build_snix_prompt_def st)
qed

lemma show_nat_10_11: "show_nat 11 \<noteq> show_nat 10"
  by code_simp

lemma keys_differ:
  "make_cache_key 14 f True e 10 \<noteq> make_cache_key 14 f True e 11"
  using show_nat_10_11 by (simp add: make_cache_key_def)

lemma ok_gateway_later:
  "gemini_generate default_config (ok_world\<lparr>time_get := t\<rparr>) pr ''gemini-2.5-flash'' 800
     = (Inr \<lparr>g_text = ''ok'',
              g_meta = \<lparr>block_reason = None, finish_reason = Some ''STOP'', usage = None\<rparr>\<rparr>,
        \<lparr>attempts = 1, net_calls = 1, sleeps = []\<rparr>)"
proof -
  have retries: "nat (SNIX_RETRIES default_config + 1) = Suc (Suc (Suc (Suc 0)))"
    by (simp add: default_config_def)
  show ?thesis
    unfolding gemini_generate_def retries
    by (simp add: gemini_generate_once_def Let_def validate_default_model default_config_def
        ok_world_def quota_world_def no_trace_def)
qed

lemma coach_run_answered:
  assumes "coach_prepare pw (today_safe w) s payload = Inr p"
    and "c (pp_cache_key p) = None"
    and "gemini_generate cfg w (pp_prompt p) (GEMINI_MODEL cfg) (SNIX_MAX_OUTPUT_TOKENS cfg)
            = (Inr out, tr)"
    and "validate_gemini_model_name (GEMINI_MODEL cfg) = Inr m"
  shows "\<exists>r. snix_coach pw cfg w s c payload
            = (Inr r, cache_set (time_set w) (pp_cache_key p) r c, tr)
          \<and> r_n_logs_used r = length (window (pp_sel p))"
  using assms by (simp add: snix_coach_def cache_get_def coach_success_def Let_def)

text \<open>
  Claim C6 names the parameters \<open>days\<close>, \<open>focus\<close> and \<open>include_notes\<close>. The fourth parameter,
  \<open>max_items\<close>, bounds the logs that are read, and the number of logs in the window is part of
  the cache key. On a store of eleven logs, a request with \<open>max_items = 11\<close> at time 1000 and
  a request with \<open>max_items = 10\<close> at time 1900, equal in \<open>days\<close>, \<open>focus\<close> and
  \<open>include_notes\<close>, use 11 and 10 logs: the second request misses the cache and calls the
  provider.
\<close>

theorem coach_cache_max_items_counterexample:
  "snd (snd (snix_coach rounded_pow default_config (ok_world\<lparr>time_get := 1900\<rparr>) eleven_store
         (fst (snd (snix_coach rounded_pow default_config ok_world eleven_store Map.empty
                      (request_items 11))))
         (request_items 10)))
     = \<lparr>attempts = 1, net_calls = 1, sleeps = []\<rparr>
   \<and> map_sum id r_n_logs_used
        (fst (snix_coach rounded_pow default_config ok_world eleven_store Map.empty
                (request_items 11)))
       = Inr 11
   \<and> map_sum id r_n_logs_used
        (fst (snix_coach rounded_pow default_config (ok_world\<lparr>time_get := 1900\<rparr>) eleven_store
                (fst (snd (snix_coach rounded_pow default_config ok_world eleven_store Map.empty
                             (request_items 11))))
                (request_items 10)))
       = Inr 10"
proof -
  let ?w2 = "ok_world\<lparr>time_get := 1900\<rparr>"
  let ?tr = "\<lparr>attempts = 1, net_calls = 1, sleeps = [] :: real list\<rparr>"
  let ?k = "make_cache_key 14 (take 40 (strip ''ansiedade'')) True (isoformat 738892)"
  from eleven_prepare[of rounded_pow] obtain p1 where
    a1: "coach_prepare rounded_pow 738892 eleven_store (request_items 11) = Inr p1
      \<and> pp_cache_key p1 = ?k 11 \<and> length (window (pp_sel p1)) = 11" ..
  from ten_prepare[of rounded_pow] obtain p2 where
    a2: "coach_prepare rounded_pow 738892 eleven_store (request_items 10) = Inr p2
      \<and> pp_cache_key p2 = ?k 10 \<and> length (window (pp_sel p2)) = 10" ..
  have td: "today_safe ok_world = 738892" "today_safe ?w2 = 738892"
    by (simp_all add: ok_world_def quota_world_def)
  from a1 have prep1: "coach_prepare rounded_pow (today_safe ok_world) eleven_store (request_items 11) = Inr p1"
    and k1: "pp_cache_key p1 = ?k 11" and n1: "length (window (pp_sel p1)) = 11"
    by (simp_all only: td)
  from a2 have prep2: "coach_prepare rounded_pow (today_safe ?w2) eleven_store (request_items 10) = Inr p2"
    and k2: "pp_cache_key p2 = ?k 10" and n2: "length (window (pp_sel p2)) = 10"
    by (simp_all only: td)
  have mdl: "GEMINI_MODEL default_config = ''gemini-2.5-flash''"
    and mx: "SNIX_MAX_OUTPUT_TOKENS default_config = 800" by (simp_all add: default_config_def)
  have v: "validate_gemini_model_name (GEMINI_MODEL default_config) = Inr ''gemini-2.5-flash''"
    unfolding mdl by (rule validate_default_model)
  have gw1: "gemini_generate default_config ok_world (pp_prompt p1) (GEMINI_MODEL default_config)
      (SNIX_MAX_OUTPUT_TOKENS default_config)
     = (Inr \<lparr>g_text = ''ok'',
              g_meta = \<lparr>block_reason = None, finish_reason = Some ''STOP'', usage = None\<rparr>\<rparr>, ?tr)"
    unfolding mdl mx by (rule ok_gateway)
  have gw2: "gemini_generate default_config ?w2 (pp_prompt p2) (GEMINI_MODEL default_config)
      (SNIX_MAX_OUTPUT_TOKENS default_config)
     = (Inr \<lparr>g_text = ''ok'',
              g_meta = \<lparr>block_reason = None, finish_reason = Some ''STOP'', usage = None\<rparr>\<rparr>, ?tr)"
    unfolding mdl mx by (rule ok_gateway_later)
  have e: "Map.empty (pp_cache_key p1) = None" by simp
  from coach_run_answered[where c = Map.empty, OF prep1 e gw1 v] obtain r1 where
    b1: "snix_coach rounded_pow default_config ok_world eleven_store Map.empty (request_items 11)
          = (Inr r1, cache_set (time_set ok_world) (pp_cache_key p1) r1 Map.empty, ?tr)
        \<and> r_n_logs_used r1 = length (window (pp_sel p1))" ..
  then have run1: "snix_coach rounded_pow default_config ok_world eleven_store Map.empty (request_items 11)
          = (Inr r1, cache_set (time_set ok_world) (pp_cache_key p1) r1 Map.empty, ?tr)"
    and u1: "r_n_logs_used r1 = 11" by (simp_all only: n1)
  have miss: "cache_set (time_set ok_world) (pp_cache_key p1) r1 Map.empty (pp_cache_key p2) = None"
    unfolding k1 k2 using keys_differ[of "take 40 (strip ''ansiedade'')" "isoformat 738892"]
    by (simp add: cache_set_def)
  from coach_run_answered[where c = "cache_set (time_set ok_world) (pp_cache_key p1) r1 Map.empty",
      OF prep2 miss gw2 v] obtain r2 where
    b2: "snix_coach rounded_pow default_config ?w2 eleven_store
           (cache_set (time_set ok_world) (pp_cache_key p1) r1 Map.empty) (request_items 10)
          = (Inr r2, cache_set (time_set ?w2) (pp_cache_key p2) r2
                (cache_set (time_set ok_world) (pp_cache_key p1) r1 Map.empty), ?tr)
        \<and> r_n_logs_used r2 = length (window (pp_sel p2))" ..
  then have run2: "snix_coach rounded_pow default_config ?w2 eleven_store
           (cache_set (time_set ok_world) (pp_cache_key p1) r1 Map.empty) (request_items 10)
          = (Inr r2, cache_set (time_set ?w2) (pp_cache_key p2) r2
                (cache_set (time_set ok_world) (pp_cache_key p1) r1 Map.empty), ?tr)"
    and u2: "r_n_logs_used r2 = 10" by (simp_all only: n2)
  have c1: "fst (snd (snix_coach rounded_pow default_config ok_world eleven_store Map.empty
                      (request_items 11)))
      = cache_set (time_set ok_world) (pp_cache_key p1) r1 Map.empty"
    by (simp only: run1 fst_conv snd_conv)
  show ?thesis
    unfolding c1 by (simp add: run1 run2 u1 u2)
qed

subsection \<open>Pearson correlation\<close>

text \<open>
  Over the real numbers the formula behaves as claim C5 says: where it is defined it lies
  between \<open>-1\<close> and \<open>1\<close> (Cauchy-Schwarz), and it is undefined exactly for unequal lengths,
  fewer than 4 points, or a constant series.
\<close>

lemma sum_sq_nonneg: "0 \<le> sum_list (map (\<lambda>x. (f x)\<^sup>2) (xs :: real list))"
  for f :: "real \<Rightarrow> real"
  by (induction xs) auto

lemma quad_expand:
  "length xs = length ys \<Longrightarrow>
   sum_list (map (\<lambda>(x, y). (t * f x + g y)\<^sup>2) (zip xs ys))
     = t\<^sup>2 * sum_list (map (\<lambda>x. (f x)\<^sup>2) xs)
       + 2 * t * sum_list (map (\<lambda>(x, y). f x * g y) (zip xs ys))
       + sum_list (map (\<lambda>y. (g y)\<^sup>2) (ys :: real list))"
  for f g :: "real \<Rightarrow> real"
proof (induction xs ys rule: list_induct2)
  case Nil
  then show ?case by simp
next
  case (Cons x xs y ys)
  then show ?case by (simp add: power2_eq_square algebra_simps)
qed

lemma quad_nonneg:
  "0 \<le> sum_list (map (\<lambda>(x, y). (t * f x + g y)\<^sup>2) (zip xs (ys :: real list)))"
  for f g :: "real \<Rightarrow> real"
  by (rule sum_list_nonneg) auto

lemma cauchy_schwarz_lists:
  fixes f g :: "real \<Rightarrow> real"
  assumes len: "length xs = length ys"
  shows "(sum_list (map (\<lambda>(x, y). f x * g y) (zip xs ys)))\<^sup>2
           \<le> sum_list (map (\<lambda>x. (f x)\<^sup>2) xs) * sum_list (map (\<lambda>y. (g y)\<^sup>2) ys)"
proof -
  let ?A = "sum_list (map (\<lambda>x. (f x)\<^sup>2) xs)"
  let ?B = "sum_list (map (\<lambda>(x, y). f x * g y) (zip xs ys))"
  let ?C = "sum_list (map (\<lambda>y. (g y)\<^sup>2) ys)"
  have q: "0 \<le> t\<^sup>2 * ?A + 2 * t * ?B + ?C" for t
    using quad_nonneg[of t f g xs ys] quad_expand[OF len, of t f g] by simp
  have A0: "0 \<le> ?A" by (rule sum_sq_nonneg)
  have C0: "0 \<le> ?C" by (rule sum_sq_nonneg)
  show ?thesis
  proof (cases "?A = 0")
    case True
    have "?B = 0"
    proof (rule ccontr)
      assume nz: "?B \<noteq> 0"
      from q[of "- (?C + 1) / (2 * ?B)"] True nz have "0 \<le> - (?C + 1) + ?C"
        by (simp add: field_simps)
      then show False by simp
    qed
    with True show ?thesis by simp
  next
    case False
    with A0 have Apos: "0 < ?A" by simp
    from q[of "- ?B / ?A"] have "0 \<le> (?B / ?A)\<^sup>2 * ?A - 2 * (?B / ?A) * ?B + ?C"
      by (simp add: power2_eq_square)
    also have "(?B / ?A)\<^sup>2 * ?A - 2 * (?B / ?A) * ?B + ?C = ?C - ?B\<^sup>2 / ?A"
      using Apos by (simp add: power2_eq_square field_simps)
    finally have "?B\<^sup>2 / ?A \<le> ?C" by simp
    with Apos show ?thesis by (simp add: field_simps)
  qed
qed


lemma sum_sq_zero_iff:
  "sum_list (map (\<lambda>x. (x - m)\<^sup>2) (xs :: real list)) = 0 \<longleftrightarrow> (\<forall>x \<in> set xs. x = m)"
proof -
  have "sum_list (map (\<lambda>x. (x - m)\<^sup>2) xs) = 0
      \<longleftrightarrow> (\<forall>v \<in> set (map (\<lambda>x. (x - m)\<^sup>2) xs). v = 0)"
    by (rule sum_list_nonneg_eq_0_iff) auto
  then show ?thesis by auto
qed

lemma mean_of_constant:
  "xs \<noteq> [] \<Longrightarrow> \<forall>x \<in> set xs. x = c \<Longrightarrow> sum_list xs / real (length xs) = (c :: real)"
proof -
  assume ne: "xs \<noteq> []" and all: "\<forall>x \<in> set xs. x = c"
  from all have "sum_list xs = real (length xs) * c"
    by (induction xs) (auto simp: algebra_simps)
  with ne show ?thesis by simp
qed

lemma zero_variance_iff_constant:
  assumes "xs \<noteq> []"
  shows "sqrt (sum_list (map (\<lambda>x. (x - sum_list xs / real (length xs))\<^sup>2) xs)) = 0
           \<longleftrightarrow> (\<forall>x \<in> set xs. x = hd xs)"
proof
  assume "sqrt (sum_list (map (\<lambda>x. (x - sum_list xs / real (length xs))\<^sup>2) xs)) = 0"
  then have all: "\<forall>x \<in> set xs. x = sum_list xs / real (length xs)"
    by (simp add: sum_sq_zero_iff)
  with assms have "hd xs = sum_list xs / real (length xs)" by (metis list.set_sel(1))
  with all show "\<forall>x \<in> set xs. x = hd xs" by simp
next
  assume c: "\<forall>x \<in> set xs. x = hd xs"
  with assms have "sum_list xs / real (length xs) = hd xs" by (rule mean_of_constant)
  with c show "sqrt (sum_list (map (\<lambda>x. (x - sum_list xs / real (length xs))\<^sup>2) xs)) = 0"
    by (simp add: sum_sq_zero_iff)
qed

lemma pearson_exact_range:
  assumes "pearson_exact xs ys = Some r"
  shows "- 1 \<le> r \<and> r \<le> 1"
proof -
  let ?mx = "sum_list xs / real (length xs)"
  let ?my = "sum_list ys / real (length ys)"
  let ?A = "sum_list (map (\<lambda>x. (x - ?mx)\<^sup>2) xs)"
  let ?B = "sum_list (map (\<lambda>(x, y). (x - ?mx) * (y - ?my)) (zip xs ys))"
  let ?C = "sum_list (map (\<lambda>y. (y - ?my)\<^sup>2) ys)"
  from assms have len: "length xs = length ys"
    and dx: "sqrt ?A \<noteq> 0" and dy: "sqrt ?C \<noteq> 0"
    and r: "r = ?B / (sqrt ?A * sqrt ?C)"
    by (auto simp: pearson_exact_def Let_def split: if_splits)
  have A0: "0 \<le> ?A" and C0: "0 \<le> ?C" by (rule sum_sq_nonneg)+
  with dx dy have pos: "0 < sqrt ?A * sqrt ?C" by (simp add: less_le)
  have "?B\<^sup>2 \<le> ?A * ?C"
    using cauchy_schwarz_lists[OF len, of "\<lambda>x. x - ?mx" "\<lambda>y. y - ?my"] by simp
  then have "sqrt (?B\<^sup>2) \<le> sqrt (?A * ?C)" by (rule real_sqrt_le_mono)
  then have "\<bar>?B\<bar> \<le> sqrt ?A * sqrt ?C" by (simp add: real_sqrt_mult)
  with pos have "\<bar>?B / (sqrt ?A * sqrt ?C)\<bar> \<le> 1" by (simp add: divide_le_eq)
  then have "\<bar>r\<bar> \<le> 1" by (simp only: r)
  then show ?thesis by (simp only: abs_le_iff) simp
qed

lemma pearson_exact_undefined:
  "pearson_exact xs ys = None \<longleftrightarrow>
     (length xs \<noteq> length ys \<or> length xs < 4
      \<or> (\<forall>x \<in> set xs. x = hd xs) \<or> (\<forall>y \<in> set ys. y = hd ys))"
proof (cases "length xs \<noteq> length ys \<or> length xs < 4")
  case True
  then show ?thesis by (auto simp: pearson_exact_def)
next
  case False
  then have len: "length xs = length ys" and "4 \<le> length xs" by auto
  then have ne: "xs \<noteq> []" "ys \<noteq> []" by auto
  let ?A = "sum_list (map (\<lambda>x. (x - sum_list xs / real (length xs))\<^sup>2) xs)"
  let ?C = "sum_list (map (\<lambda>y. (y - sum_list ys / real (length ys))\<^sup>2) ys)"
  have "pearson_exact xs ys = None \<longleftrightarrow> (sqrt ?A = 0 \<or> sqrt ?C = 0)"
    using False by (simp add: pearson_exact_def Let_def)
  also have "\<dots> \<longleftrightarrow> ((\<forall>x \<in> set xs. x = hd xs) \<or> (\<forall>y \<in> set ys. y = hd ys))"
    by (simp only: zero_variance_iff_constant[OF ne(1)] zero_variance_iff_constant[OF ne(2)])
  finally show ?thesis using False by simp
qed

text \<open>
  On doubles the function is undefined for unequal lengths and fewer than 4 points, and for a
  constant series whose computed mean is the constant itself.
\<close>

lemma pearson_corr_short:
  "length xs \<noteq> length ys \<or> length xs < 4 \<Longrightarrow> pearson_corr pw xs ys = None"
  by (simp add: pearson_corr_def)

lemma fsum_zeros: "foldl fadd 0 (map (\<lambda>x. 0) xs) = 0"
  by (induction xs) (simp_all add: fadd_def fl_zero)

lemma pearson_corr_constant_exact_mean:
  assumes "length xs = length ys" and "4 \<le> length xs"
    and "\<forall>x \<in> set xs. x = c"
    and "fdiv (fsum xs) (float_of_int (int (length xs))) = c"
  shows "pearson_corr pw xs ys = None"
proof -
  have m: "map (\<lambda>x. pow_two pw (fsub x c)) xs = map (\<lambda>x. 0) xs"
    using assms(3) by (simp add: fsub_def fl_zero pow_two_def)
  have "fsum (map (\<lambda>x. pow_two pw (fsub x c)) xs) = 0"
    unfolding fsum_def by (simp only: m fsum_zeros)
  then show ?thesis
    using assms(1,2,4) by (simp add: pearson_corr_def Let_def pow_half_def)
qed

text \<open>Where both denominators are non-zero, the result is the double quotient.\<close>

lemma pearson_corr_defined:
  assumes "length xs = length ys" and "4 \<le> length xs"
    and "fdiv (fsum xs) (float_of_int (int (length xs))) = mx"
    and "fdiv (fsum ys) (float_of_int (int (length ys))) = my"
    and "pow_half pw (fsum (map (\<lambda>x. pow_two pw (fsub x mx)) xs)) = denx"
    and "pow_half pw (fsum (map (\<lambda>y. pow_two pw (fsub y my)) ys)) = deny"
    and "fsum (map (\<lambda>(x, y). fmul (fsub x mx) (fsub y my)) (zip xs ys)) = num"
    and "denx \<noteq> 0" and "deny \<noteq> 0"
  shows "pearson_corr pw xs ys = Some (fdiv num (fmul denx deny))"
  using assms by (simp add: pearson_corr_def Let_def)

text \<open>The series of the example, evaluated.\<close>

lemma rep9: "replicate 9 x = [x, x, x, x, x, x, x, x, x]"
  by (simp add: eval_nat_numeral)

lemma constant_sleep_list:
  "constant_sleep = [3996944669291315 / 2 ^ 49, 3996944669291315 / 2 ^ 49,
     3996944669291315 / 2 ^ 49, 3996944669291315 / 2 ^ 49, 3996944669291315 / 2 ^ 49,
     3996944669291315 / 2 ^ 49, 3996944669291315 / 2 ^ 49, 3996944669291315 / 2 ^ 49,
     3996944669291315 / 2 ^ 49]"
proof -
  have "fl (71 / 10) = 3996944669291315 / 2 ^ 49"
    by (simp add: fl_eval)
  then show ?thesis
    by (simp only: constant_sleep_def rep9)
qed

lemma varied_anxiety_list: "varied_anxiety = [3, 1, 3, 1, 2, 2, 2, 2, 2]"
  by (simp add: varied_anxiety_def float_of_int_def fl_eval)

lemma constant_sleep_mean:
  "fdiv (fsum constant_sleep) (float_of_int (int (length constant_sleep)))
     = 7993889338582631 / 2 ^ 50"
  unfolding constant_sleep_list by (simp add: float_ops fl_eval)

lemma varied_anxiety_mean:
  "fdiv (fsum varied_anxiety) (float_of_int (int (length varied_anxiety))) = 2"
  unfolding varied_anxiety_list by (simp add: float_ops fl_eval)

lemma constant_sleep_deviation:
  "fsub (3996944669291315 / 2 ^ 49) (7993889338582631 / 2 ^ 50) = - (1 / 2 ^ 50)"
  by (simp add: float_ops fl_eval)

lemma varied_anxiety_deviations:
  "fsub 3 2 = 1" "fsub 1 2 = - 1" "fsub 2 2 = 0"
  by (simp_all add: float_ops fl_eval)

text \<open>
  Claim C5 fails on the program for a constant series whose computed mean is not the
  constant. Nine values of 7.1 add up to 63.900000000000006, their mean is
  7.1000000000000005, every deviation from it is \<open>- 2 ^ -50\<close>, and the sum of the squared
  deviations is \<open>9 * 2 ^ -100\<close>, not 0. With a \<open>pow\<close> that is exact on the three powers that
  arise, \<open>_pearson_corr\<close> returns \<open>0.0\<close> where the claim says \<open>None\<close>.
\<close>

theorem pearson_corr_constant_series_defined:
  assumes h1: "pw (1 / 2 ^ 50) 2 = 1 / 2 ^ 100"
    and h2: "pw (9 / 2 ^ 100) (1 / 2) = 3 / 2 ^ 50"
    and h3: "pw 4 (1 / 2) = 2"
  shows "pearson_corr pw constant_sleep varied_anxiety = Some 0"
proof -
  let ?m = "7993889338582631 / 2 ^ 50 :: real"
  have sq: "pow_two pw (- (1 / 2 ^ 50)) = 1 / 2 ^ 100"
    using h1 by (simp add: pow_two_def)
  have sqs: "pow_two pw 1 = 1" "pow_two pw (- 1) = 1" "pow_two pw 0 = 0"
    by (simp_all add: pow_two_def)
  have sx: "fsum (map (\<lambda>x. pow_two pw (fsub x ?m)) constant_sleep) = 9 / 2 ^ 100"
    unfolding constant_sleep_list
    by (simp only: list.map constant_sleep_deviation sq) (simp add: float_ops fl_eval)
  have hx: "pow_half pw (9 / 2 ^ 100) = 3 / 2 ^ 50"
    using h2 by (simp add: pow_half_def)
  have denx: "pow_half pw (fsum (map (\<lambda>x. pow_two pw (fsub x ?m)) constant_sleep)) = 3 / 2 ^ 50"
    by (simp only: sx hx)
  have sy: "fsum (map (\<lambda>y. pow_two pw (fsub y 2)) varied_anxiety) = 4"
    unfolding varied_anxiety_list
    by (simp only: list.map varied_anxiety_deviations sqs) (simp add: float_ops fl_eval)
  have hy: "pow_half pw 4 = 2"
    using h3 by (simp add: pow_half_def)
  have deny: "pow_half pw (fsum (map (\<lambda>y. pow_two pw (fsub y 2)) varied_anxiety)) = 2"
    by (simp only: sy hy)
  have num: "fsum (map (\<lambda>(x, y). fmul (fsub x ?m) (fsub y 2)) (zip constant_sleep varied_anxiety)) = 0"
    unfolding constant_sleep_list varied_anxiety_list
    by (simp only: list.map prod.case zip_Cons_Cons zip_Nil constant_sleep_deviation
          varied_anxiety_deviations)
       (simp add: float_ops fl_eval)
  have len: "length constant_sleep = length varied_anxiety" "4 \<le> length constant_sleep"
    by (simp_all add: constant_sleep_def varied_anxiety_def)
  have "pearson_corr pw constant_sleep varied_anxiety = Some (fdiv 0 (fmul (3 / 2 ^ 50) 2))"
    using len constant_sleep_mean varied_anxiety_mean denx deny num
    by (rule pearson_corr_defined) simp_all
  also have "fdiv 0 (fmul (3 / 2 ^ 50) 2) = 0"
    by (simp add: fdiv_def fl_zero)
  finally show ?thesis .
qed

text \<open>The sample \<open>pow\<close> is exact on the three powers.\<close>

lemma sqrt_nine_quarter: "sqrt (9 / 2 ^ 100) = 3 / 2 ^ 50"
  by (rule real_sqrt_unique) (simp_all add: power2_eq_square)

theorem pearson_corr_constant_series_witness:
  "pearson_corr rounded_pow constant_sleep varied_anxiety = Some 0"
proof -
  have 1: "rounded_pow (1 / 2 ^ 50) 2 = 1 / 2 ^ 100"
    by (simp add: rounded_pow_def fl_eval)
  have "rounded_pow (9 / 2 ^ 100) (1 / 2) = fl (3 / 2 ^ 50)"
    by (simp only: rounded_pow_def sqrt_nine_quarter) simp
  also have "\<dots> = 3 / 2 ^ 50"
    by (simp add: fl_eval)
  finally have 2: "rounded_pow (9 / 2 ^ 100) (1 / 2) = 3 / 2 ^ 50" .
  have "rounded_pow 4 (1 / 2) = fl 2"
    by (simp add: rounded_pow_def)
  also have "\<dots> = 2"
    by (simp add: fl_eval)
  finally have 3: "rounded_pow 4 (1 / 2) = 2" .
  from 1 2 3 show ?thesis by (rule pearson_corr_constant_series_defined)
qed

end
